theory Spec2Isabelle
  imports Complex_Main "HOL-Library.Char_ord" "HOL-Library.List_Lexorder" "HOL-Library.AList"
begin

section \<open>Python values, exceptions and string helpers\<close>

text \<open>
  Exceptions are values. \<open>ValueError\<close> and \<open>RuntimeError\<close> are the two the pipeline
  raises itself; \<open>ZeroDivisionError\<close> is what \<open>saved_frames % 0\<close> raises;
  \<open>ExternalError\<close> stands for whatever a library call (OpenCV, torch, ffmpeg, MinIO,
  the operating system) raises. \<open>str_error\<close> is Python's \<open>str(e)\<close>.
\<close>

datatype error =
    ValueError string
  | RuntimeError string
  | ZeroDivisionError
  | ExternalError string

fun str_error :: "error \<Rightarrow> string" where
  "str_error (ValueError m) = m"
| "str_error (RuntimeError m) = m"
| "str_error ZeroDivisionError = ''integer modulo by zero''"
| "str_error (ExternalError m) = m"

text \<open>The values stored in the dictionaries sent as progress updates.\<close>

datatype pyval = PInt int | PFloat rat | PStr string

type_synonym dict = "(string \<times> pyval) list"

text \<open>\<open>d.update(m)\<close>: later keys override, new keys are appended.\<close>

definition dict_update :: "dict \<Rightarrow> dict \<Rightarrow> dict" where
  "dict_update d m = foldl (\<lambda>acc kv. AList.update (fst kv) (snd kv) acc) d m"

definition dict_get :: "dict \<Rightarrow> string \<Rightarrow> pyval option" where
  "dict_get d k = map_of d k"

text \<open>Decimal rendering of integers, as an f-string does it.\<close>

definition digit_char :: "nat \<Rightarrow> char" where
  "digit_char n = ''0123456789'' ! (n mod 10)"

fun str_nat_fuel :: "nat \<Rightarrow> nat \<Rightarrow> string" where
  "str_nat_fuel 0 n = [digit_char n]"
| "str_nat_fuel (Suc k) n =
     (if n < 10 then [digit_char n] else str_nat_fuel k (n div 10) @ [digit_char n])"

definition str_nat :: "nat \<Rightarrow> string" where
  "str_nat n = str_nat_fuel n n"

definition str_int :: "int \<Rightarrow> string" where
  "str_int i = (if i < 0 then ''-'' @ str_nat (nat (- i)) else str_nat (nat i))"

text \<open>The format \<open>{n:06d}\<close> for a non-negative \<open>n\<close>.\<close>

definition fmt_06d :: "nat \<Rightarrow> string" where
  "fmt_06d n = replicate (6 - length (str_nat n)) (CHR ''0'') @ str_nat n"

definition endswith :: "string \<Rightarrow> string \<Rightarrow> bool" where
  "endswith s suf \<longleftrightarrow> length suf \<le> length s \<and> drop (length s - length suf) s = suf"

text \<open>\<open>os.path.join(d, f)\<close> for a relative file name \<open>f\<close>.\<close>

definition path_join :: "string \<Rightarrow> string \<Rightarrow> string" where
  "path_join d f = d @ ''/'' @ f"

section \<open>Images, files and the world\<close>

text \<open>
  An image is its shape and an opaque pixel buffer. A file in a frame directory is an
  image that \<open>cv2.imread\<close> decodes, a file it cannot decode (it returns \<open>None\<close>),
  or a file on which the read itself raises.
\<close>

record image =
  height :: nat
  width :: nat
  pixels :: "nat list"

datatype disk_file = Img image | Undecodable | Faulty string

type_synonym directory = "(string \<times> disk_file) list"

datatype video = Video (vframes: "image list") (vfps: nat) (has_audio: bool)

text \<open>
  What the pipeline sends out and which external operations it invokes, in order:
  \<open>task.update_state(state, meta)\<close>, a publication on the Redis channel of the task,
  and the calls of \<open>enhance_image\<close>, \<open>shutil.copy\<close>, the super-resolution model and
  \<open>reconstruct_video\<close>.
\<close>

datatype effect =
    TaskState string dict
  | Publish dict
  | EnhanceCall string string
  | CopyCall string string
  | ModelCall image
  | ReconstructCall string string

record world =
  dirs :: "string \<rightharpoonup> directory"
  vfiles :: "string \<rightharpoonup> video"
  effects :: "effect list"

definition emit :: "effect \<Rightarrow> world \<Rightarrow> world" where
  "emit e w = w\<lparr>effects := effects w @ [e]\<rparr>"

definition makedirs :: "string \<Rightarrow> world \<Rightarrow> world" where
  "makedirs p w = (case dirs w p of None \<Rightarrow> w\<lparr>dirs := (dirs w)(p \<mapsto> [])\<rparr> | Some _ \<Rightarrow> w)"

definition lookup_file :: "world \<Rightarrow> string \<Rightarrow> string \<Rightarrow> disk_file option" where
  "lookup_file w d f = (case dirs w d of None \<Rightarrow> None | Some c \<Rightarrow> map_of c f)"

definition store_file :: "string \<Rightarrow> string \<Rightarrow> disk_file \<Rightarrow> world \<Rightarrow> world" where
  "store_file d f x w =
     (case dirs w d of None \<Rightarrow> w | Some c \<Rightarrow> w\<lparr>dirs := (dirs w)(d \<mapsto> AList.update f x c)\<rparr>)"

text \<open>\<open>cv2.imread\<close>: an error, \<open>None\<close>, or the image.\<close>

definition imread :: "world \<Rightarrow> string \<Rightarrow> string \<Rightarrow> error + image option" where
  "imread w d f =
     (case lookup_file w d f of
        None \<Rightarrow> Inr None
      | Some Undecodable \<Rightarrow> Inr None
      | Some (Faulty m) \<Rightarrow> Inl (ExternalError m)
      | Some (Img i) \<Rightarrow> Inr (Some i))"

section \<open>The environment: external collaborators\<close>

text \<open>
  The numeric measurements of OpenCV, the super-resolution model, the decoder, the
  encoder, ffmpeg and the object store are parameters of the model. Each may raise.
\<close>

record capture =
  cap_fps :: rat
  cap_frame_count :: int
  cap_reads :: "image option list"

datatype mux_result = MuxOk video | MuxFailed string | MuxRaised error

record env =
  laplacian_var :: "image \<Rightarrow> error + rat"
  brightness :: "image \<Rightarrow> error + rat"
  blockiness :: "image \<Rightarrow> error + rat"
  upsample :: "image \<Rightarrow> error + image"
  open_capture :: "string \<Rightarrow> capture option"
  imwrite_ok :: "string \<Rightarrow> image \<Rightarrow> bool"
  writer_opens :: "string \<Rightarrow> bool"
  ffmpeg_mux :: "video \<Rightarrow> string \<Rightarrow> mux_result"
  download :: "string \<Rightarrow> string \<Rightarrow> error + string \<times> video"
  upload :: "video \<Rightarrow> string \<Rightarrow> string \<Rightarrow> error option"

text \<open>\<open>cv2.imwrite(path, img)\<close>: returns whether the file was written.\<close>

definition imwrite :: "env \<Rightarrow> string \<Rightarrow> string \<Rightarrow> image \<Rightarrow> world \<Rightarrow> bool \<times> world" where
  "imwrite ev d f i w =
     (if imwrite_ok ev (path_join d f) i \<and> dirs w d \<noteq> None
      then (True, store_file d f (Img i) w) else (False, w))"

section \<open>quality_check.py\<close>

text \<open>Each check catches every exception of its measurement and answers False then.\<close>

definition is_blurry :: "env \<Rightarrow> image \<Rightarrow> bool" where
  "is_blurry ev i = (case laplacian_var ev i of Inl _ \<Rightarrow> False | Inr v \<Rightarrow> v < 100)"

definition is_dark :: "env \<Rightarrow> image \<Rightarrow> bool" where
  "is_dark ev i = (case brightness ev i of Inl _ \<Rightarrow> False | Inr v \<Rightarrow> v < 100)"

definition is_low_resolution :: "image \<Rightarrow> bool" where
  "is_low_resolution i \<longleftrightarrow> width i < 1280 \<or> height i < 720"

definition is_pixelated :: "env \<Rightarrow> image \<Rightarrow> bool" where
  "is_pixelated ev i = (case blockiness ev i of Inl _ \<Rightarrow> False | Inr v \<Rightarrow> v > 15)"

record verdict =
  blurry :: bool
  dark :: bool
  low_resolution :: bool
  pixelated :: bool
  filename :: string

text \<open>
  \<open>get_quality_score\<close> returns the four flags; \<open>analyze_video\<close> then adds the file
  name to the same dictionary. An image read by \<open>cv2.imread\<close> has a three-part shape,
  so the unpacking of \<open>image.shape\<close> cannot raise here.
\<close>

definition get_quality_score :: "env \<Rightarrow> image \<Rightarrow> verdict" where
  "get_quality_score ev i =
     \<lparr>blurry = is_blurry ev i, dark = is_dark ev i,
      low_resolution = is_low_resolution i, pixelated = is_pixelated ev i,
      filename = []\<rparr>"

section \<open>analyzer.py\<close>

text \<open>
  The loop of \<open>analyze_video\<close> over the frame files: a frame whose read returns
  \<open>None\<close> or raises is skipped, every other frame is appended to the results.
\<close>

fun analyze_files :: "env \<Rightarrow> world \<Rightarrow> string \<Rightarrow> string list \<Rightarrow> verdict list" where
  "analyze_files ev w frame_dir [] = []"
| "analyze_files ev w frame_dir (f # fs) =
     (case imread w frame_dir f of
        Inl e \<Rightarrow> analyze_files ev w frame_dir fs
      | Inr None \<Rightarrow> analyze_files ev w frame_dir fs
      | Inr (Some i) \<Rightarrow>
          (get_quality_score ev i)\<lparr>filename := f\<rparr> # analyze_files ev w frame_dir fs)"

definition frame_files :: "directory \<Rightarrow> string list" where
  "frame_files c = filter (\<lambda>f. endswith f ''.jpg'') (sort (map fst c))"

definition analyze_video :: "env \<Rightarrow> world \<Rightarrow> string \<Rightarrow> error + verdict list" where
  "analyze_video ev w frame_dir =
     (case dirs w frame_dir of
        None \<Rightarrow> Inl (ValueError (''Frame directory does not exist: '' @ frame_dir))
      | Some c \<Rightarrow>
          if frame_files c = []
          then Inl (ValueError (''No frame files found in directory: '' @ frame_dir))
          else Inr (analyze_files ev w frame_dir (frame_files c)))"

text \<open>
  The count that \<open>analyze_video\<close> logs as "Good frames" (a Python \<open>int\<close>), and the
  \<open>good_count\<close> that \<open>run_pipeline\<close> reports in its progress event.
\<close>

definition count_flag :: "(verdict \<Rightarrow> bool) \<Rightarrow> verdict list \<Rightarrow> int" where
  "count_flag p results = int (length (filter p results))"

definition analyzer_good_count :: "verdict list \<Rightarrow> int" where
  "analyzer_good_count results =
     int (length results) - count_flag blurry results - count_flag dark results
       - count_flag low_resolution results - count_flag pixelated results"

definition pipeline_good_count :: "verdict list \<Rightarrow> int" where
  "pipeline_good_count results =
     int (length results) - count_flag blurry results - count_flag dark results"

section \<open>video_frame_extraction.py\<close>

definition frame_name :: "nat \<Rightarrow> string" where
  "frame_name saved = ''frame_'' @ fmt_06d saved @ ''.jpg''"

text \<open>
  The loop of \<open>extract_frames\<close> over the results of \<open>cap.read()\<close>: \<open>None\<close> is a
  read with \<open>ret = False\<close>, which ends the loop, as the end of the stream does. With
  \<open>extract_all_frames\<close> a frame whose write fails is not counted; the sampling branch
  computes \<open>int(video_fps // 1)\<close> and raises on \<open>saved_frames % 0\<close>.
\<close>

fun extract_loop ::
  "env \<Rightarrow> string \<Rightarrow> bool \<Rightarrow> rat \<Rightarrow> image option list \<Rightarrow> nat \<Rightarrow> world \<Rightarrow> (error + nat) \<times> world"
where
  "extract_loop ev output_dir extract_all fps [] saved w = (Inr saved, w)"
| "extract_loop ev output_dir extract_all fps (None # rest) saved w = (Inr saved, w)"
| "extract_loop ev output_dir extract_all fps (Some frame # rest) saved w =
     (if extract_all then
        (let r = imwrite ev output_dir (frame_name saved) frame w in
         if fst r then extract_loop ev output_dir extract_all fps rest (saved + 1) (snd r)
         else extract_loop ev output_dir extract_all fps rest saved (snd r))
      else
        (let frame_interval = (if fps > 0 then nat \<lfloor>fps\<rfloor> else 1) in
         if frame_interval = 0 then (Inl ZeroDivisionError, w)
         else if saved mod frame_interval = 0 then
           (let r = imwrite ev output_dir (frame_name saved) frame w in
            if fst r then extract_loop ev output_dir extract_all fps rest (saved + 1 + 1) (snd r)
            else extract_loop ev output_dir extract_all fps rest (saved + 1) (snd r))
         else extract_loop ev output_dir extract_all fps rest (saved + 1) w))"

definition extract_frames ::
  "env \<Rightarrow> string \<Rightarrow> string \<Rightarrow> bool \<Rightarrow> world \<Rightarrow> (error + nat) \<times> world"
where
  "extract_frames ev video_path output_dir extract_all w =
     (let w1 = makedirs output_dir w in
      case open_capture ev video_path of
        None \<Rightarrow> (Inl (ValueError (''Failed to open video file: '' @ video_path)), w1)
      | Some cap \<Rightarrow> extract_loop ev output_dir extract_all (cap_fps cap) (cap_reads cap) 0 w1)"

section \<open>enhancer.py\<close>

text \<open>
  \<open>enhance_image(image_path, output_path)\<close>, with each path given as its directory
  and file name. The construction of the model and its \<open>enhance\<close> call are the
  parameter \<open>upsample\<close>; the call is recorded as a \<open>ModelCall\<close>.
\<close>

definition enhance_image ::
  "env \<Rightarrow> string \<Rightarrow> string \<Rightarrow> string \<Rightarrow> world \<Rightarrow> (error + bool) \<times> world"
where
  "enhance_image ev in_dir out_dir f w0 =
     (let w = emit (EnhanceCall (path_join in_dir f) (path_join out_dir f)) w0 in
      case imread w in_dir f of
        Inl e \<Rightarrow> (Inl e, w)
      | Inr None \<Rightarrow> (Inl (ValueError (''Could not load image from '' @ path_join in_dir f)), w)
      | Inr (Some img) \<Rightarrow>
          if \<not> (is_low_resolution img \<or> is_pixelated ev img) then
            (let r = imwrite ev out_dir f img w in
             if \<not> fst r then (Inl (RuntimeError ''Failed to save image (copy mode)''), snd r)
             else (Inr False, snd r))
          else
            (let w1 = emit (ModelCall img) w in
             case upsample ev img of
               Inl e \<Rightarrow> (Inl e, w1)
             | Inr output \<Rightarrow>
                 (let r = imwrite ev out_dir f output w1 in
                  if fst r then (Inr True, snd r)
                  else (Inl (RuntimeError ''Failed to save enhanced image''), snd r))))"

text \<open>\<open>shutil.copy(src, dst)\<close> between two directories, keeping the file name.\<close>

definition copy_file :: "string \<Rightarrow> string \<Rightarrow> string \<Rightarrow> world \<Rightarrow> (error + unit) \<times> world" where
  "copy_file in_dir out_dir f w0 =
     (let w = emit (CopyCall (path_join in_dir f) (path_join out_dir f)) w0 in
      case lookup_file w in_dir f of
        None \<Rightarrow> (Inl (ExternalError ''FileNotFoundError''), w)
      | Some x \<Rightarrow>
          if dirs w out_dir = None then (Inl (ExternalError ''FileNotFoundError''), w)
          else (Inr (), store_file out_dir f x w))"

section \<open>reconstructor.py\<close>

text \<open>\<open>s.replace(old, new)\<close> for a non-empty \<open>old\<close>.\<close>

fun py_replace_aux :: "string \<Rightarrow> string \<Rightarrow> nat \<Rightarrow> string \<Rightarrow> string" where
  "py_replace_aux old new skip [] = []"
| "py_replace_aux old new skip (c # cs) =
     (if skip > 0 then py_replace_aux old new (skip - 1) cs
      else if take (length old) (c # cs) = old
      then new @ py_replace_aux old new (length old - 1) cs
      else c # py_replace_aux old new 0 cs)"

definition py_replace :: "string \<Rightarrow> string \<Rightarrow> string \<Rightarrow> string" where
  "py_replace old new s = py_replace_aux old new 0 s"

text \<open>
  The frame loop of \<open>reconstruct_video\<close>: a frame that does not decode is skipped, a
  read that raises ends the loop with the frames written so far.
\<close>

fun write_frames :: "world \<Rightarrow> string \<Rightarrow> string list \<Rightarrow> error option \<times> image list" where
  "write_frames w frame_dir [] = (None, [])"
| "write_frames w frame_dir (f # fs) =
     (case imread w frame_dir f of
        Inl e \<Rightarrow> (Some e, [])
      | Inr None \<Rightarrow> write_frames w frame_dir fs
      | Inr (Some i) \<Rightarrow>
          (let r = write_frames w frame_dir fs in (fst r, i # snd r)))"

text \<open>\<open>os.rename(src, dst)\<close> and \<open>os.remove(p)\<close> on the video files.\<close>

definition rename_file :: "string \<Rightarrow> string \<Rightarrow> world \<Rightarrow> error option \<times> world" where
  "rename_file src dst w =
     (case vfiles w src of
        None \<Rightarrow> (Some (ExternalError ''FileNotFoundError''), w)
      | Some v \<Rightarrow> (None, w\<lparr>vfiles := ((vfiles w)(src := None))(dst \<mapsto> v)\<rparr>))"

definition remove_file :: "string \<Rightarrow> world \<Rightarrow> world" where
  "remove_file p w = w\<lparr>vfiles := (vfiles w)(p := None)\<rparr>"

definition rename_temp :: "string \<Rightarrow> string \<Rightarrow> world \<Rightarrow> (error + string) \<times> world" where
  "rename_temp temp output_path w =
     (case rename_file temp output_path w of
        (Some e, w') \<Rightarrow> (Inl e, w')
      | (None, w') \<Rightarrow> (Inr output_path, w'))"

definition reconstruct_video ::
  "env \<Rightarrow> string \<Rightarrow> string \<Rightarrow> string option \<Rightarrow> nat \<Rightarrow> world \<Rightarrow> (error + string) \<times> world"
where
  "reconstruct_video ev frame_dir output_path original_video_path fps w0 =
     (let w = emit (ReconstructCall frame_dir output_path) w0 in
      case dirs w frame_dir of
        None \<Rightarrow> (Inl (ExternalError ''FileNotFoundError''), w)
      | Some c \<Rightarrow>
          (let frames = sort (filter (\<lambda>f. endswith f ''.jpg'') (map fst c)) in
           if frames = [] then
             (Inl (ValueError (''No frame files found in directory: '' @ frame_dir)), w)
           else
             (case imread w frame_dir (hd frames) of
                Inl e \<Rightarrow> (Inl e, w)
              | Inr None \<Rightarrow>
                  (Inl (ValueError (''Failed to read first frame: '' @ path_join frame_dir (hd frames))), w)
              | Inr (Some first_frame) \<Rightarrow>
                  (let temp_video_path = py_replace ''.mp4'' ''_temp.mp4'' output_path in
                   if \<not> writer_opens ev temp_video_path then
                     (Inl (ValueError (''Failed to initialize video writer for: '' @ temp_video_path)), w)
                   else
                     (let written = write_frames w frame_dir frames;
                          temp_video = Video (snd written) fps False;
                          w1 = w\<lparr>vfiles := (vfiles w)(temp_video_path \<mapsto> temp_video)\<rparr>
                      in case fst written of
                           Some e \<Rightarrow> (Inl e, w1)
                         | None \<Rightarrow>
                             (case original_video_path of
                                None \<Rightarrow> rename_temp temp_video_path output_path w1
                              | Some orig \<Rightarrow>
                                  if orig \<noteq> [] \<and> vfiles w1 orig \<noteq> None then
                                    (case ffmpeg_mux ev temp_video orig of
                                       MuxOk v \<Rightarrow>
                                         (Inr output_path,
                                          remove_file temp_video_path
                                            (w1\<lparr>vfiles := (vfiles w1)(output_path \<mapsto> v)\<rparr>))
                                     | MuxFailed stderr \<Rightarrow> rename_temp temp_video_path output_path w1
                                     | MuxRaised e \<Rightarrow> rename_temp temp_video_path output_path w1)
                                  else rename_temp temp_video_path output_path w1))))))"

section \<open>run_pipeline.py\<close>

text \<open>
  \<open>update_progress\<close>, the closure of \<open>run_pipeline\<close>: \<open>has_task\<close> says that a
  \<open>task\<close> was passed, \<open>has_callback\<close> that a \<open>progress_callback\<close> was. Log lines
  are not part of the model.
\<close>

definition update_data :: "string \<Rightarrow> string \<Rightarrow> pyval \<Rightarrow> dict \<Rightarrow> dict" where
  "update_data step message progress_percent meta =
     dict_update [(''step'', PStr step), (''message'', PStr message),
                  (''progress_percent'', progress_percent)] meta"

definition update_progress ::
  "bool \<Rightarrow> bool \<Rightarrow> string \<Rightarrow> string \<Rightarrow> pyval \<Rightarrow> dict \<Rightarrow> world \<Rightarrow> world"
where
  "update_progress has_task has_callback step message progress_percent meta w =
     (let d = update_data step message progress_percent meta;
          w1 = (if has_task then emit (TaskState ''PROGRESS'' d) w else w)
      in if has_callback then emit (Publish d) w1 else w1)"

text \<open>The handler of each stage: record the failure on the task, then re-raise.\<close>

definition record_failure :: "bool \<Rightarrow> string \<Rightarrow> error \<Rightarrow> world \<Rightarrow> world" where
  "record_failure has_task prefix e w =
     (if has_task
      then emit (TaskState ''FAILURE'' [(''error'', PStr (prefix @ str_error e))]) w
      else w)"

definition frames_dir :: string where
  "frames_dir = ''ml_output/frames''"

definition enhanced_dir :: string where
  "enhanced_dir = ''ml_output/enhanced''"

definition reconstructed_path :: string where
  "reconstructed_path = ''ml_output/reconstructed.mp4''"

definition pipeline_setup :: "bool \<Rightarrow> bool \<Rightarrow> string \<Rightarrow> world \<Rightarrow> world" where
  "pipeline_setup t c video_path w =
     (let w1 = update_progress t c ''INIT'' ''Pipeline started'' (PInt 0)
                 [(''video_path'', PStr video_path)] w;
          w2 = update_progress t c ''SETUP'' ''Creating output directories'' (PInt 5) [] w1;
          w3 = makedirs enhanced_dir (makedirs frames_dir w2)
      in update_progress t c ''SETUP'' ''Output directories created successfully'' (PInt 10) [] w3)"

definition stage_extract ::
  "env \<Rightarrow> bool \<Rightarrow> bool \<Rightarrow> string \<Rightarrow> world \<Rightarrow> (error + nat) \<times> world"
where
  "stage_extract ev t c video_path w =
     (let w1 = update_progress t c ''EXTRACT'' ''Starting frame extraction'' (PInt 15) [] w in
      case extract_frames ev video_path frames_dir True w1 of
        (Inl e, w2) \<Rightarrow> (Inl e, record_failure t ''Frame extraction failed: '' e w2)
      | (Inr total_frames, w2) \<Rightarrow>
          (Inr total_frames,
           update_progress t c ''EXTRACT''
             (''Frame extraction completed successfully. Extracted '' @ str_nat total_frames
                @ '' frames'')
             (PInt 30) [(''total_frames'', PInt (int total_frames))] w2))"

definition stage_analyze ::
  "env \<Rightarrow> bool \<Rightarrow> bool \<Rightarrow> world \<Rightarrow> (error + verdict list) \<times> world"
where
  "stage_analyze ev t c w =
     (let w1 = update_progress t c ''ANALYZE'' ''Starting video quality analysis'' (PInt 35) [] w in
      case analyze_video ev w1 frames_dir of
        Inl e \<Rightarrow> (Inl e, record_failure t ''Video analysis failed: '' e w1)
      | Inr results \<Rightarrow>
          (let w2 = update_progress t c ''ANALYZE''
                      (''Quality analysis completed. Analyzed '' @ str_nat (length results)
                         @ '' frames'')
                      (PInt 50) [(''analyzed_frames'', PInt (int (length results)))] w1;
               blurry_count = count_flag blurry results;
               dark_count = count_flag dark results;
               good_count = pipeline_good_count results
           in (Inr results,
               update_progress t c ''ANALYZE''
                 (''Analysis summary: '' @ str_int blurry_count @ '' blurry frames, ''
                    @ str_int dark_count @ '' dark frames, '' @ str_int good_count
                    @ '' good frames'')
                 (PInt 50)
                 [(''blurry_count'', PInt blurry_count), (''dark_count'', PInt dark_count),
                  (''good_count'', PInt good_count)] w2)))"

text \<open>
  The loop of step 3 over \<open>enumerate(results)\<close>: \<open>len\<close> is \<open>len(results)\<close>,
  \<open>i\<close> the index of the head of the remaining list.
\<close>

definition frame_progress :: "nat \<Rightarrow> nat \<Rightarrow> rat" where
  "frame_progress i len = 55 + (of_nat i / of_nat len) * 30"

text \<open>The message and the metadata of the update sent before a frame is enhanced.\<close>

definition enhancing_message :: "nat \<Rightarrow> nat \<Rightarrow> verdict \<Rightarrow> string" where
  "enhancing_message i len r =
     ''Enhancing frame '' @ str_nat (i + 1) @ ''/'' @ str_nat len @ '': '' @ filename r"

definition frame_meta :: "nat \<Rightarrow> nat \<Rightarrow> nat \<Rightarrow> nat \<Rightarrow> dict" where
  "frame_meta i len enhanced_count copied_count =
     [(''current_frame'', PInt (int (i + 1))),
      (''total_frames'', PInt (int len)),
      (''enhanced_count'', PInt (int enhanced_count)),
      (''copied_count'', PInt (int copied_count))]"

fun enhance_loop ::
  "env\<Rightarrow> bool \<Rightarrow> bool \<Rightarrow> nat \<Rightarrow> nat \<Rightarrow> verdict list \<Rightarrow> nat \<Rightarrow> nat \<Rightarrow> world
     \<Rightarrow> (error + nat \<times> nat) \<times> world"
where
  "enhance_loop ev t c len i [] enhanced_count copied_count w =
     (Inr (enhanced_count, copied_count), w)"
| "enhance_loop ev t c len i (r # rs) enhanced_count copied_count w =
     (if blurry r \<or> dark r then
        (let w1 = update_progress t c ''ENHANCE'' (enhancing_message i len r)
                    (PFloat (frame_progress i len))
                    (frame_meta i len enhanced_count copied_count) w;
             res = enhance_image ev frames_dir enhanced_dir (filename r) w1
         in case fst res of
              Inl e \<Rightarrow> (Inl e, snd res)
            | Inr _ \<Rightarrow>
                enhance_loop ev t c len (i + 1) rs (enhanced_count + 1) copied_count (snd res))
      else
        (let res = copy_file frames_dir enhanced_dir (filename r) w
         in case fst res of
              Inl e \<Rightarrow> (Inl e, snd res)
            | Inr _ \<Rightarrow>
                enhance_loop ev t c len (i + 1) rs enhanced_count (copied_count + 1) (snd res)))"

definition stage_enhance ::
  "env \<Rightarrow> bool \<Rightarrow> bool \<Rightarrow> verdict list \<Rightarrow> world \<Rightarrow> (error + nat \<times> nat) \<times> world"
where
  "stage_enhance ev t c results w =
     (let w1 = update_progress t c ''ENHANCE'' ''Starting frame enhancement'' (PInt 55) [] w in
      case enhance_loop ev t c (length results) 0 results 0 0 w1 of
        (Inl e, w2) \<Rightarrow> (Inl e, record_failure t ''Frame processing failed: '' e w2)
      | (Inr (enhanced_count, copied_count), w2) \<Rightarrow>
          (Inr (enhanced_count, copied_count),
           update_progress t c ''ENHANCE''
             (''Frame processing completed: '' @ str_nat enhanced_count @ '' enhanced, ''
                @ str_nat copied_count @ '' copied'')
             (PInt 85)
             [(''enhanced_count'', PInt (int enhanced_count)),
              (''copied_count'', PInt (int copied_count))] w2))"

definition stage_reconstruct ::
  "env \<Rightarrow> bool \<Rightarrow> bool \<Rightarrow> string \<Rightarrow> world \<Rightarrow> (error + string) \<times> world"
where
  "stage_reconstruct ev t c video_path w =
     (let w1 = update_progress t c ''RECONSTRUCT'' ''Starting video reconstruction'' (PInt 90) [] w in
      case reconstruct_video ev enhanced_dir reconstructed_path (Some video_path) 24 w1 of
        (Inl e, w2) \<Rightarrow> (Inl e, record_failure t ''Video reconstruction failed: '' e w2)
      | (Inr reconstructed_video, w2) \<Rightarrow>
          (Inr reconstructed_video,
           update_progress t c ''RECONSTRUCT''
             (''Video reconstruction completed: '' @ reconstructed_video)
             (PInt 95) [(''output_path'', PStr reconstructed_video)] w2))"

definition pipeline_complete ::
  "bool \<Rightarrow> bool \<Rightarrow> verdict list \<Rightarrow> nat \<Rightarrow> nat \<Rightarrow> world \<Rightarrow> world"
where
  "pipeline_complete t c results enhanced_count copied_count w =
     update_progress t c ''COMPLETE'' ''Pipeline completed successfully'' (PInt 100)
       [(''final_output'', PStr ''ml_output/reconstructed.mp4''),
        (''total_frames'', PInt (int (length results))),
        (''enhanced_count'', PInt (int enhanced_count)),
        (''copied_count'', PInt (int copied_count))] w"

definition run_pipeline ::
  "env \<Rightarrow> bool \<Rightarrow> bool \<Rightarrow> string \<Rightarrow> world \<Rightarrow> (error + verdict list) \<times> world"
where
  "run_pipeline ev t c video_path w =
     (case stage_extract ev t c video_path (pipeline_setup t c video_path w) of
        (Inl e, w1) \<Rightarrow> (Inl e, w1)
      | (Inr total_frames, w1) \<Rightarrow>
          (case stage_analyze ev t c w1 of
             (Inl e, w2) \<Rightarrow> (Inl e, w2)
           | (Inr results, w2) \<Rightarrow>
               (case stage_enhance ev t c results w2 of
                  (Inl e, w3) \<Rightarrow> (Inl e, w3)
                | (Inr (enhanced_count, copied_count), w3) \<Rightarrow>
                    (case stage_reconstruct ev t c video_path w3 of
                       (Inl e, w4) \<Rightarrow> (Inl e, w4)
                     | (Inr reconstructed_video, w4) \<Rightarrow>
                         (Inr results,
                          pipeline_complete t c results enhanced_count copied_count w4)))))"

section \<open>tasks.py\<close>

text \<open>\<open>bucket, key = video_path.split('/', 1)\<close>: the unpacking raises without a slash.\<close>

definition split_bucket_key :: "string \<Rightarrow> error + string \<times> string" where
  "split_bucket_key p =
     (if CHR ''/'' \<in> set p
      then Inr (takeWhile (\<lambda>x. x \<noteq> CHR ''/'') p, tl (dropWhile (\<lambda>x. x \<noteq> CHR ''/'') p))
      else Inl (ValueError ''not enough values to unpack (expected 2, got 1)''))"

record task_result =
  tr_video_path :: string
  tr_total_frames :: nat
  tr_enhanced_frames :: nat
  tr_output_path :: string
  tr_results :: "verdict list"

definition enhanced_frames :: "verdict list \<Rightarrow> nat" where
  "enhanced_frames results = length (filter (\<lambda>r. blurry r \<or> dark r) results)"

text \<open>The handler of \<open>run_pipeline_task\<close>: task state, publication, re-raise.\<close>

definition task_failure :: "string \<Rightarrow> error \<Rightarrow> world \<Rightarrow> (error + task_result) \<times> world" where
  "task_failure video_path e w =
     (Inl e,
      emit (Publish [(''state'', PStr ''FAILURE''), (''status'', PStr ''Pipeline failed''),
                     (''error'', PStr (str_error e))])
        (emit (TaskState ''FAILURE''
                 [(''status'', PStr ''Pipeline failed''), (''error'', PStr (str_error e)),
                  (''video_path'', PStr video_path)]) w))"

definition task_success ::
  "string \<Rightarrow> string \<Rightarrow> string \<Rightarrow> verdict list \<Rightarrow> world \<Rightarrow> (error + task_result) \<times> world"
where
  "task_success video_path local_video_path enhanced_minio_path results w =
     (let w1 = emit (TaskState ''SUCCESS''
                   [(''status'', PStr ''Pipeline completed successfully''),
                    (''video_path'', PStr video_path),
                    (''total_frames'', PInt (int (length results))),
                    (''enhanced_frames'', PInt (int (enhanced_frames results))),
                    (''output_path'', PStr enhanced_minio_path)]) w;
          w2 = emit (Publish [(''state'', PStr ''SUCCESS''),
                              (''status'', PStr ''Pipeline completed successfully''),
                              (''output_path'', PStr enhanced_minio_path)]) w1
      in (Inr \<lparr>tr_video_path = video_path, tr_total_frames = length results,
               tr_enhanced_frames = enhanced_frames results,
               tr_output_path = enhanced_minio_path, tr_results = results\<rparr>,
          remove_file local_video_path w2))"

text \<open>The downloaded file is on disk and the task state is \<open>STARTED\<close>.\<close>

definition task_started :: "string \<Rightarrow> string \<Rightarrow> video \<Rightarrow> world \<Rightarrow> world" where
  "task_started video_path local_video_path content w =
     emit (TaskState ''STARTED''
             [(''status'', PStr ''Pipeline started''), (''video_path'', PStr video_path)])
       (w\<lparr>vfiles := (vfiles w)(local_video_path \<mapsto> content)\<rparr>)"

definition run_pipeline_task :: "env \<Rightarrow> string \<Rightarrow> world \<Rightarrow> (error + task_result) \<times> world" where
  "run_pipeline_task ev video_path w =
     (case split_bucket_key video_path of
        Inl e \<Rightarrow> task_failure video_path e w
      | Inr (bucket, key) \<Rightarrow>
          (case download ev bucket key of
             Inl e \<Rightarrow> task_failure video_path e w
           | Inr (local_video_path, content) \<Rightarrow>
               (let w2 = task_started video_path local_video_path content w
                in case run_pipeline ev True True local_video_path w2 of
                     (Inl e, w3) \<Rightarrow> task_failure video_path e w3
                   | (Inr results, w3) \<Rightarrow>
                       (case vfiles w3 reconstructed_path of
                          None \<Rightarrow> task_failure video_path (ExternalError ''FileNotFoundError'') w3
                        | Some enhanced_file \<Rightarrow>
                            (case upload ev enhanced_file bucket ''enhanced/reconstructed.mp4'' of
                               Some e \<Rightarrow> task_failure video_path e w3
                             | None \<Rightarrow>
                                 task_success video_path local_video_path
                                   (bucket @ ''/'' @ ''enhanced/reconstructed.mp4'') results w3)))))"

section \<open>Observations on a run\<close>

text \<open>
  The effects a run adds to the world, and their projections: the dictionaries
  published on the channel, the task states, the files passed to \<open>enhance_image\<close>,
  to \<open>shutil.copy\<close>, the images given to the model, the calls of
  \<open>reconstruct_video\<close>.
\<close>

definition new_effects :: "world \<Rightarrow> world \<Rightarrow> effect list" where
  "new_effects w w' = drop (length (effects w)) (effects w')"

definition publications :: "effect list \<Rightarrow> dict list" where
  "publications es = List.map_filter (\<lambda>e. case e of Publish d \<Rightarrow> Some d | _ \<Rightarrow> None) es"

definition task_states :: "effect list \<Rightarrow> (string \<times> dict) list" where
  "task_states es =
     List.map_filter (\<lambda>e. case e of TaskState s d \<Rightarrow> Some (s, d) | _ \<Rightarrow> None) es"

definition enhance_calls :: "effect list \<Rightarrow> (string \<times> string) list" where
  "enhance_calls es =
     List.map_filter (\<lambda>e. case e of EnhanceCall a b \<Rightarrow> Some (a, b) | _ \<Rightarrow> None) es"

definition copy_calls :: "effect list \<Rightarrow> (string \<times> string) list" where
  "copy_calls es =
     List.map_filter (\<lambda>e. case e of CopyCall a b \<Rightarrow> Some (a, b) | _ \<Rightarrow> None) es"

definition model_calls :: "effect list \<Rightarrow> image list" where
  "model_calls es = List.map_filter (\<lambda>e. case e of ModelCall i \<Rightarrow> Some i | _ \<Rightarrow> None) es"

definition reconstruct_calls :: "effect list \<Rightarrow> (string \<times> string) list" where
  "reconstruct_calls es =
     List.map_filter (\<lambda>e. case e of ReconstructCall a b \<Rightarrow> Some (a, b) | _ \<Rightarrow> None) es"

text \<open>The number an update carries as \<open>progress_percent\<close>, if it carries one.\<close>

definition percent_of :: "dict \<Rightarrow> rat option" where
  "percent_of d =
     (case dict_get d ''progress_percent'' of
        Some (PInt i) \<Rightarrow> Some (of_int i)
      | Some (PFloat q) \<Rightarrow> Some q
      | _ \<Rightarrow> None)"

definition percents :: "dict list \<Rightarrow> rat list" where
  "percents ds = List.map_filter percent_of ds"

text \<open>The routing predicate of step 3, and the two paths of a frame file.\<close>

definition routed :: "verdict \<Rightarrow> bool" where
  "routed r \<longleftrightarrow> blurry r \<or> dark r"

definition frame_paths :: "verdict \<Rightarrow> string \<times> string" where
  "frame_paths r = (path_join frames_dir (filename r), path_join enhanced_dir (filename r))"

text \<open>
  The dictionaries that the loop of step 3 hands to \<open>update_progress\<close> for a list
  of verdicts, as a function of the loop's variables alone.
\<close>

fun loop_updates :: "nat \<Rightarrow> nat \<Rightarrow> verdict list \<Rightarrow> nat \<Rightarrow> nat \<Rightarrow> dict list" where
  "loop_updates len i [] enhanced_count copied_count = []"
| "loop_updates len i (r # rs) enhanced_count copied_count =
     (if blurry r \<or> dark r then
        update_data ''ENHANCE'' (enhancing_message i len r) (PFloat (frame_progress i len))
          (frame_meta i len enhanced_count copied_count)
        # loop_updates len (i + 1) rs (enhanced_count + 1) copied_count
      else loop_updates len (i + 1) rs enhanced_count (copied_count + 1))"

text \<open>The effects of one call of \<open>update_progress\<close> with the dictionary \<open>d\<close>.\<close>

definition progress_effects :: "bool \<Rightarrow> bool \<Rightarrow> dict \<Rightarrow> effect list" where
  "progress_effects t c d =
     (if t then [TaskState ''PROGRESS'' d] else []) @ (if c then [Publish d] else [])"

text \<open>
  What the loop of step 3 leaves behind after \<open>k\<close> frames: the updates sent, the
  files routed to \<open>enhance_image\<close> and to \<open>shutil.copy\<close>, and the two counters.
\<close>

definition loop_post ::
  "bool \<Rightarrow> bool \<Rightarrow> nat \<Rightarrow> nat \<Rightarrow> verdict list \<Rightarrow> nat \<Rightarrow> nat \<Rightarrow> (error + nat \<times> nat) \<Rightarrow> nat \<Rightarrow> effect list \<Rightarrow> bool"
where
  "loop_post t c len i rs e cp res k E \<longleftrightarrow>
     k \<le> length rs
     \<and> publications E = (if c then loop_updates len i (take k rs) e cp else [])
     \<and> task_states E = (if t then map (Pair ''PROGRESS'') (loop_updates len i (take k rs) e cp) else [])
     \<and> enhance_calls E = map frame_paths (filter routed (take k rs))
     \<and> copy_calls E = map frame_paths (filter (\<lambda>r. \<not> routed r) (take k rs))
     \<and> reconstruct_calls E = []
     \<and> (case res of
          Inr x \<Rightarrow> k = length rs \<and> x = (e + length (filter routed rs), cp + length (filter (\<lambda>r. \<not> routed r) rs))
        | Inl _ \<Rightarrow> 0 < k)"



text \<open>The temporary video of \<open>reconstruct_video\<close> for the pipeline's output path.\<close>

definition temp_path :: string where
  "temp_path = ''ml_output/reconstructed_temp.mp4''"

text \<open>
  A property of every dictionary a list of effects sends, on either channel; and the
  property of naming no output artifact.
\<close>

definition all_updates :: "(dict \<Rightarrow> bool) \<Rightarrow> effect list \<Rightarrow> bool" where
  "all_updates P E \<longleftrightarrow>
     list_all P (publications E) \<and> list_all (\<lambda>sd. P (snd sd)) (task_states E)"

definition no_artifact :: "dict \<Rightarrow> bool" where
  "no_artifact d \<longleftrightarrow> dict_get d ''output_path'' = None \<and> dict_get d ''final_output'' = None"

text \<open>The effects of a stage's failure handler in \<open>run_pipeline\<close>.\<close>

definition failure_effects :: "bool \<Rightarrow> string \<Rightarrow> error \<Rightarrow> effect list" where
  "failure_effects t pre e =
     (if t then [TaskState ''FAILURE'' [(''error'', PStr (pre @ str_error e))]] else [])"

section \<open>Example inputs\<close>

text \<open>
  Four frames: a small blurry one, a full-size blurry one, a full-size sharp one and a
  small sharp one. In \<open>demo_env\<close> the Laplacian variance of a frame is the head of
  its pixel list, no frame is dark or blocky, the model doubles both dimensions, every
  write succeeds, muxing fails, and the task's video is fetched to \<open>/tmp/in.mp4\<close>.
\<close>

definition img_small_blurry :: image where
  "img_small_blurry = \<lparr>height = 360, width = 640, pixels = [10]\<rparr>"

definition img_hd_blurry :: image where
  "img_hd_blurry = \<lparr>height = 720, width = 1280, pixels = [10]\<rparr>"

definition img_hd_sharp :: image where
  "img_hd_sharp = \<lparr>height = 720, width = 1280, pixels = [500]\<rparr>"

definition img_small_sharp :: image where
  "img_small_sharp = \<lparr>height = 360, width = 640, pixels = [500]\<rparr>"

definition demo_capture :: "image list \<Rightarrow> capture" where
  "demo_capture frames =
     \<lparr>cap_fps = 24, cap_frame_count = int (length frames), cap_reads = map Some frames\<rparr>"

definition demo_env :: "image list \<Rightarrow> env" where
  "demo_env frames =
     \<lparr>laplacian_var =
        (\<lambda>i. case pixels i of [] \<Rightarrow> Inl (ExternalError ''empty image'') | p # _ \<Rightarrow> Inr (of_nat p)),
      brightness = (\<lambda>i. Inr 200),
      blockiness = (\<lambda>i. Inr 0),
      upsample = (\<lambda>i. Inr (i\<lparr>height := 2 * height i, width := 2 * width i\<rparr>)),
      open_capture = (\<lambda>p. if p = ''/tmp/in.mp4'' then Some (demo_capture frames) else None),
      imwrite_ok = (\<lambda>p i. True),
      writer_opens = (\<lambda>p. True),
      ffmpeg_mux = (\<lambda>v p. MuxFailed ''Stream map 1:a:0 matches no streams''),
      download = (\<lambda>b k. Inr (''/tmp/in.mp4'', Video [] 24 True)),
      upload = (\<lambda>v b k. None)\<rparr>"

definition empty_world :: world where
  "empty_world = \<lparr>dirs = Map.empty, vfiles = Map.empty, effects = []\<rparr>"

definition verdict_of :: "bool \<Rightarrow> bool \<Rightarrow> bool \<Rightarrow> bool \<Rightarrow> string \<Rightarrow> verdict" where
  "verdict_of b d l p f =
     \<lparr>blurry = b, dark = d, low_resolution = l, pixelated = p, filename = f\<rparr>"

text \<open>
  A world after analysis: two frames on disk, the first low-resolution but sharp, the
  second blurry at full size, with their verdicts.
\<close>

definition w_two :: world where
  "w_two =
     \<lparr>dirs = [frames_dir \<mapsto> [(''frame_000000.jpg'', Img img_small_sharp),
                              (''frame_000001.jpg'', Img img_hd_blurry)],
              enhanced_dir \<mapsto> []],
      vfiles = Map.empty, effects = []\<rparr>"

definition rs_two :: "verdict list" where
  "rs_two = [verdict_of False False True False ''frame_000000.jpg'',
             verdict_of True False False False ''frame_000001.jpg'']"

text \<open>A world with one small blurry frame on disk.\<close>

definition w_small :: world where
  "w_small =
     \<lparr>dirs = [frames_dir \<mapsto> [(''frame_000000.jpg'', Img img_small_blurry)], enhanced_dir \<mapsto> []],
      vfiles = Map.empty, effects = []\<rparr>"

text \<open>
  A run of the task on a two-frame video (a small blurry frame, a full-size sharp one):
  the worlds after the task has started and after each of the first three stages.
\<close>

definition demo_frames :: "image list" where
  "demo_frames = [img_small_blurry, img_hd_sharp]"

definition demo_w0 :: world where
  "demo_w0 = task_started ''videos/a.mp4'' ''/tmp/in.mp4'' (Video [] 24 True) empty_world"

definition demo_w1 :: world where
  "demo_w1 = snd (stage_extract (demo_env demo_frames) True True ''/tmp/in.mp4''
                    (pipeline_setup True True ''/tmp/in.mp4'' demo_w0))"

definition demo_results :: "verdict list" where
  "demo_results = [verdict_of True False True False ''frame_000000.jpg'',
                   verdict_of False False False False ''frame_000001.jpg'']"

definition demo_w2 :: world where
  "demo_w2 = snd (stage_analyze (demo_env demo_frames) True True demo_w1)"

definition demo_w3 :: world where
  "demo_w3 = snd (stage_enhance (demo_env demo_frames) True True demo_results demo_w2)"

definition demo_enhanced :: "image list" where
  "demo_enhanced = [\<lparr>height = 720, width = 1280, pixels = [10]\<rparr>, img_hd_sharp]"

text \<open>
  The same task with a model that raises, and the worlds after its first two stages.
\<close>

definition failing_env :: env where
  "failing_env = (demo_env demo_frames)\<lparr>upsample := (\<lambda>i. Inl (ExternalError ''out of memory''))\<rparr>"

definition fail_w1 :: world where
  "fail_w1 = snd (stage_extract failing_env True True ''/tmp/in.mp4''
                    (pipeline_setup True True ''/tmp/in.mp4'' demo_w0))"

definition fail_w2 :: world where
  "fail_w2 = snd (stage_analyze failing_env True True fail_w1)"






section \<open>Basic facts about effects\<close>

lemma map_filter_append: "List.map_filter f (xs @ ys) = List.map_filter f xs @ List.map_filter f ys"
  by (simp add: List.map_filter_def)

lemma publications_append [simp]: "publications (xs @ ys) = publications xs @ publications ys"
  by (simp add: publications_def map_filter_append)
lemma task_states_append [simp]: "task_states (xs @ ys) = task_states xs @ task_states ys"
  by (simp add: task_states_def map_filter_append)
lemma enhance_calls_append [simp]: "enhance_calls (xs @ ys) = enhance_calls xs @ enhance_calls ys"
  by (simp add: enhance_calls_def map_filter_append)
lemma copy_calls_append [simp]: "copy_calls (xs @ ys) = copy_calls xs @ copy_calls ys"
  by (simp add: copy_calls_def map_filter_append)
lemma model_calls_append [simp]: "model_calls (xs @ ys) = model_calls xs @ model_calls ys"
  by (simp add: model_calls_def map_filter_append)
lemma reconstruct_calls_append [simp]: "reconstruct_calls (xs @ ys) = reconstruct_calls xs @ reconstruct_calls ys"
  by (simp add: reconstruct_calls_def map_filter_append)

lemma projections_Nil [simp]:
  "publications [] = []" "task_states [] = []" "enhance_calls [] = []" "copy_calls [] = []"
  "model_calls [] = []" "reconstruct_calls [] = []"
  by (simp_all add: publications_def task_states_def enhance_calls_def copy_calls_def
      model_calls_def reconstruct_calls_def)

lemma projections_Cons [simp]:
  "publications (e # es) = (case e of Publish d \<Rightarrow> [d] | _ \<Rightarrow> []) @ publications es"
  "task_states (e # es) = (case e of TaskState s d \<Rightarrow> [(s, d)] | _ \<Rightarrow> []) @ task_states es"
  "enhance_calls (e # es) = (case e of EnhanceCall a b \<Rightarrow> [(a, b)] | _ \<Rightarrow> []) @ enhance_calls es"
  "copy_calls (e # es) = (case e of CopyCall a b \<Rightarrow> [(a, b)] | _ \<Rightarrow> []) @ copy_calls es"
  "model_calls (e # es) = (case e of ModelCall i \<Rightarrow> [i] | _ \<Rightarrow> []) @ model_calls es"
  "reconstruct_calls (e # es) = (case e of ReconstructCall a b \<Rightarrow> [(a, b)] | _ \<Rightarrow> []) @ reconstruct_calls es"
  by (simp_all add: publications_def task_states_def enhance_calls_def copy_calls_def
      model_calls_def reconstruct_calls_def split: effect.splits)

lemma new_effects_append [simp]: "effects w' = effects w @ es \<Longrightarrow> new_effects w w' = es"
  by (simp add: new_effects_def)

lemma emit_simps [simp]:
  "effects (emit e w) = effects w @ [e]" "dirs (emit e w) = dirs w" "vfiles (emit e w) = vfiles w"
  by (simp_all add: emit_def)

lemma makedirs_simps [simp]:
  "effects (makedirs p w) = effects w" "vfiles (makedirs p w) = vfiles w"
  by (simp_all add: makedirs_def split: option.splits)

lemma store_file_simps [simp]:
  "effects (store_file d f x w) = effects w" "vfiles (store_file d f x w) = vfiles w"
  by (simp_all add: store_file_def split: option.splits)

lemma imwrite_simps [simp]:
  "effects (snd (imwrite ev d f i w)) = effects w" "vfiles (snd (imwrite ev d f i w)) = vfiles w"
  by (simp_all add: imwrite_def)

lemma update_progress_effects [simp]:
  "effects (update_progress t c s m p meta w) =
     effects w @ progress_effects t c (update_data s m p meta)"
  by (simp add: update_progress_def progress_effects_def Let_def)

lemma progress_effects_projections [simp]:
  "publications (progress_effects t c d) = (if c then [d] else [])"
  "task_states (progress_effects t c d) = (if t then [(''PROGRESS'', d)] else [])"
  "enhance_calls (progress_effects t c d) = []"
  "copy_calls (progress_effects t c d) = []"
  "model_calls (progress_effects t c d) = []"
  "reconstruct_calls (progress_effects t c d) = []"
  by (simp_all add: progress_effects_def)

lemma update_progress_dirs [simp]:
  "dirs (update_progress t c s m p meta w) = dirs w"
  "vfiles (update_progress t c s m p meta w) = vfiles w"
  by (simp_all add: update_progress_def Let_def)

lemma record_failure_simps [simp]:
  "effects (record_failure t pre e w) =
     effects w @ (if t then [TaskState ''FAILURE'' [(''error'', PStr (pre @ str_error e))]] else [])"
  "dirs (record_failure t pre e w) = dirs w" "vfiles (record_failure t pre e w) = vfiles w"
  by (simp_all add: record_failure_def)

lemma imread_cong: "dirs w' = dirs w \<Longrightarrow> imread w' d f = imread w d f"
  by (simp add: imread_def lookup_file_def)

lemma imread_emit [simp]: "imread (emit e w) d f = imread w d f"
  by (rule imread_cong) simp

lemma imread_update_progress [simp]: "imread (update_progress t c s m p meta w) d f = imread w d f"
  by (rule imread_cong) simp

lemma enhance_image_effects:
  "effects (snd (enhance_image ev a b f w)) =
     effects w @ EnhanceCall (path_join a f) (path_join b f) #
       (case imread w a f of
          Inr (Some img) \<Rightarrow> if is_low_resolution img \<or> is_pixelated ev img then [ModelCall img] else []
        | _ \<Rightarrow> [])"
  by (simp add: enhance_image_def Let_def split: sum.splits option.splits)

lemma copy_file_effects:
  "effects (snd (copy_file a b f w)) = effects w @ [CopyCall (path_join a f) (path_join b f)]"
  by (simp add: copy_file_def Let_def split: option.splits)


lemma enhance_image_effects_ex:
  "\<exists>ms. effects (snd (enhance_image ev a b f w)) =
     effects w @ EnhanceCall (path_join a f) (path_join b f) # map ModelCall ms"
proof (cases "imread w a f")
  case (Inl e)
  then show ?thesis by (intro exI[of _ "[]"]) (simp add: enhance_image_effects)
next
  case (Inr ro)
  show ?thesis
  proof (cases ro)
    case None
    with Inr show ?thesis by (intro exI[of _ "[]"]) (simp add: enhance_image_effects)
  next
    case (Some img)
    show ?thesis
    proof (cases "is_low_resolution img \<or> is_pixelated ev img")
      case True
      with Inr Some show ?thesis by (intro exI[of _ "[img]"]) (simp add: enhance_image_effects)
    next
      case False
      with Inr Some show ?thesis by (intro exI[of _ "[]"]) (simp add: enhance_image_effects)
    qed
  qed
qed

lemma projections_ModelCall [simp]:
  "publications (map ModelCall ms) = []" "task_states (map ModelCall ms) = []"
  "enhance_calls (map ModelCall ms) = []" "copy_calls (map ModelCall ms) = []"
  "reconstruct_calls (map ModelCall ms) = []"
  by (induction ms) simp_all

lemma enhance_loop_effects:
  "enhance_loop ev t c len i rs e cp w = (res, w') \<Longrightarrow>
   \<exists>k E. effects w' = effects w @ E \<and> loop_post t c len i rs e cp res k E"
proof (induction rs arbitrary: i e cp w)
  case Nil
  then show ?case by (intro exI[of _ 0] exI[of _ "[]"]) (auto simp: loop_post_def)
next
  case (Cons r rs)
  show ?case
  proof (cases "blurry r \<or> dark r")
    case True
    define w1 where "w1 = update_progress t c ''ENHANCE'' (enhancing_message i len r)
                    (PFloat (frame_progress i len)) (frame_meta i len e cp) w"
    define res1 where "res1 = enhance_image ev frames_dir enhanced_dir (filename r) w1"
    have step: "enhance_loop ev t c len i (r # rs) e cp w =
       (case fst res1 of Inl err \<Rightarrow> (Inl err, snd res1)
        | Inr _ \<Rightarrow> enhance_loop ev t c len (i + 1) rs (e + 1) cp (snd res1))"
      unfolding res1_def w1_def using True by (simp add: Let_def)
    obtain ms where ms: "effects (snd res1) = effects w1 @
        EnhanceCall (path_join frames_dir (filename r)) (path_join enhanced_dir (filename r)) # map ModelCall ms"
      unfolding res1_def using enhance_image_effects_ex by blast
    have w1: "effects w1 = effects w @
        progress_effects t c (update_data ''ENHANCE'' (enhancing_message i len r)
                    (PFloat (frame_progress i len)) (frame_meta i len e cp))"
      unfolding w1_def by simp
    show ?thesis
    proof (cases "fst res1")
      case (Inl err)
      with Cons.prems[unfolded step] have r: "res = Inl err" "w' = snd res1"
        by simp_all
      show ?thesis
        apply (rule exI[of _ 1])
        apply (rule exI[of _ "new_effects w w'"])
        using r ms w1 True
        apply (simp add: loop_post_def routed_def frame_paths_def)
        done
    next
      case (Inr b)
      with Cons.prems[unfolded step] have
        "enhance_loop ev t c len (i + 1) rs (e + 1) cp (snd res1) = (res, w')"
        by simp
      from Cons.IH[OF this] obtain k E where k:
        "effects w' = effects (snd res1) @ E" "loop_post t c len (i + 1) rs (e + 1) cp res k E"
        by blast
      show ?thesis
        apply (rule exI[of _ "Suc k"])
        apply (rule exI[of _ "new_effects w w'"])
        using k ms w1 True
        apply (simp add: loop_post_def routed_def frame_paths_def split: sum.splits)
        done
    qed
  next
    case False
    define res1 where "res1 = copy_file frames_dir enhanced_dir (filename r) w"
    have step: "enhance_loop ev t c len i (r # rs) e cp w =
       (case fst res1 of Inl err \<Rightarrow> (Inl err, snd res1)
        | Inr _ \<Rightarrow> enhance_loop ev t c len (i + 1) rs e (cp + 1) (snd res1))"
      unfolding res1_def using False by (simp add: Let_def)
    have ms: "effects (snd res1) = effects w @
        [CopyCall (path_join frames_dir (filename r)) (path_join enhanced_dir (filename r))]"
      unfolding res1_def by (rule copy_file_effects)
    show ?thesis
    proof (cases "fst res1")
      case (Inl err)
      with Cons.prems[unfolded step] have r: "res = Inl err" "w' = snd res1"
        by simp_all
      show ?thesis
        apply (rule exI[of _ 1])
        apply (rule exI[of _ "new_effects w w'"])
        using r ms False
        apply (simp add: loop_post_def routed_def frame_paths_def)
        done
    next
      case (Inr b)
      with Cons.prems[unfolded step] have
        "enhance_loop ev t c len (i + 1) rs e (cp + 1) (snd res1) = (res, w')"
        by simp
      from Cons.IH[OF this] obtain k E where k:
        "effects w' = effects (snd res1) @ E" "loop_post t c len (i + 1) rs e (cp + 1) res k E"
        by blast
      show ?thesis
        apply (rule exI[of _ "Suc k"])
        apply (rule exI[of _ "new_effects w w'"])
        using k ms False
        apply (simp add: loop_post_def routed_def frame_paths_def split: sum.splits)
        done
    qed
  qed
qed

lemma record_failure_effects: "effects (record_failure t pre e w) = effects w @ failure_effects t pre e"
  by (simp add: failure_effects_def)

lemma failure_effects_projections [simp]:
  "publications (failure_effects t pre e) = []"
  "task_states (failure_effects t pre e) = (if t then [(''FAILURE'', [(''error'', PStr (pre @ str_error e))])] else [])"
  "enhance_calls (failure_effects t pre e) = []"
  "copy_calls (failure_effects t pre e) = []"
  "model_calls (failure_effects t pre e) = []"
  "reconstruct_calls (failure_effects t pre e) = []"
  by (simp_all add: failure_effects_def)

lemma stage_enhance_effects:
  assumes "stage_enhance ev t c results w = (res, w')"
  shows "\<exists>k E. loop_post t c (length results) 0 results 0 0 res k E \<and>
     effects w' = effects w
        @ progress_effects t c (update_data ''ENHANCE'' ''Starting frame enhancement'' (PInt 55) [])
        @ E
        @ (case res of
             Inl e \<Rightarrow> failure_effects t ''Frame processing failed: '' e
           | Inr (en, cp) \<Rightarrow>
               progress_effects t c
                 (update_data ''ENHANCE''
                    (''Frame processing completed: '' @ str_nat en @ '' enhanced, '' @ str_nat cp @ '' copied'')
                    (PInt 85)
                    [(''enhanced_count'', PInt (int en)), (''copied_count'', PInt (int cp))]))"
proof -
  define w1 where "w1 = update_progress t c ''ENHANCE'' ''Starting frame enhancement'' (PInt 55) [] w"
  obtain lres w2 where l: "enhance_loop ev t c (length results) 0 results 0 0 w1 = (lres, w2)"
    by (cases "enhance_loop ev t c (length results) 0 results 0 0 w1") auto
  from enhance_loop_effects[OF l] obtain k E where
    E: "effects w2 = effects w1 @ E" "loop_post t c (length results) 0 results 0 0 lres k E"
    by blast
  have w1: "effects w1 = effects w @ progress_effects t c (update_data ''ENHANCE'' ''Starting frame enhancement'' (PInt 55) [])"
    unfolding w1_def by simp
  show ?thesis
  proof (cases lres)
    case (Inl e)
    with assms l have "res = Inl e" "w' = record_failure t ''Frame processing failed: '' e w2"
      by (simp_all add: stage_enhance_def Let_def w1_def[symmetric])
    with E w1 Inl show ?thesis
      by (intro exI[of _ k] exI[of _ E]) (simp add: record_failure_effects del: record_failure_simps)
  next
    case (Inr x)
    obtain en cp where x: "x = (en, cp)" by (cases x) auto
    with Inr assms l have "res = Inr (en, cp)" "w' = update_progress t c ''ENHANCE''
             (''Frame processing completed: '' @ str_nat en @ '' enhanced, ''
                @ str_nat cp @ '' copied'')
             (PInt 85)
             [(''enhanced_count'', PInt (int en)),
              (''copied_count'', PInt (int cp))] w2"
      by (simp_all add: stage_enhance_def Let_def w1_def[symmetric])
    with E w1 Inr x show ?thesis
      by (intro exI[of _ k] exI[of _ E]) simp
  qed
qed

lemma map_of_dict_update: "map_of (dict_update d m) = map_of d ++ map_of (rev m)"
  unfolding dict_update_def
proof (induction m arbitrary: d)
  case Nil
  then show ?case by simp
next
  case (Cons kv m)
  show ?case
    by (simp add: Cons.IH update_conv' map_add_upd_left map_add_assoc[symmetric] del: map_add_assoc)
       (simp add: map_add_def fun_eq_iff split: option.splits)
qed

lemma dict_get_update_data:
  "dict_get (update_data s m p meta) k =
     (case map_of (rev meta) k of
        Some v \<Rightarrow> Some v
      | None \<Rightarrow> map_of [(''step'', PStr s), (''message'', PStr m), (''progress_percent'', p)] k)"
  by (simp add: dict_get_def update_data_def map_of_dict_update map_add_def split: option.splits)






lemma lookup_file_cong: "dirs w' = dirs w \<Longrightarrow> lookup_file w' d f = lookup_file w d f"
  by (simp add: lookup_file_def)

lemma lookup_file_emit [simp]: "lookup_file (emit e w) d f = lookup_file w d f"
  by (rule lookup_file_cong) simp

lemma lookup_file_update_progress [simp]:
  "lookup_file (update_progress t c s m p meta w) d f = lookup_file w d f"
  by (rule lookup_file_cong) simp

lemma lookup_file_store_same:
  "dirs w d \<noteq> None \<Longrightarrow> lookup_file (store_file d f x w) d f = Some x"
  by (auto simp: lookup_file_def store_file_def update_conv')

lemma imread_Img: "lookup_file w d f = Some (Img i) \<Longrightarrow> imread w d f = Inr (Some i)"
  by (simp add: imread_def)

lemma enhance_image_copy_mode:
  assumes "lookup_file w in_dir f = Some (Img img)"
    and "\<not> is_low_resolution img" "\<not> is_pixelated ev img"
    and "imwrite_ok ev (path_join out_dir f) img" "dirs w out_dir \<noteq> None"
  shows "enhance_image ev in_dir out_dir f w =
     (Inr False, store_file out_dir f (Img img) (emit (EnhanceCall (path_join in_dir f) (path_join out_dir f)) w))"
  using assms by (simp add: enhance_image_def Let_def imread_Img imwrite_def)

lemma routed_eq: "routed = (\<lambda>r. blurry r \<or> dark r)"
  by (simp add: routed_def fun_eq_iff)

lemma stage_enhance_count:
  assumes "stage_enhance ev t c results w = (Inr (en, cp), w')"
  shows "en = length (filter (\<lambda>r. blurry r \<or> dark r) results)"
proof -
  from stage_enhance_effects[OF assms] obtain k E where
    "loop_post t c (length results) 0 results 0 0 (Inr (en, cp)) k E" by blast
  then show ?thesis by (simp add: loop_post_def routed_eq)
qed

lemma extract_loop_effects [simp]:
  "effects (snd (extract_loop ev out al fps reads saved w)) = effects w"
  by (induction ev out al fps reads saved w rule: extract_loop.induct) (simp_all add: Let_def)

lemma extract_frames_effects [simp]:
  "effects (snd (extract_frames ev p out al w)) = effects w"
  by (simp add: extract_frames_def Let_def split: option.splits)

lemma pipeline_setup_effects:
  "effects (pipeline_setup t c p w) = effects w
     @ progress_effects t c (update_data ''INIT'' ''Pipeline started'' (PInt 0) [(''video_path'', PStr p)])
     @ progress_effects t c (update_data ''SETUP'' ''Creating output directories'' (PInt 5) [])
     @ progress_effects t c (update_data ''SETUP'' ''Output directories created successfully'' (PInt 10) [])"
  by (simp add: pipeline_setup_def Let_def)

lemma stage_extract_effects:
  assumes "stage_extract ev t c p w = (res, w')"
  shows "effects w' = effects w
     @ progress_effects t c (update_data ''EXTRACT'' ''Starting frame extraction'' (PInt 15) [])
     @ (case res of
          Inl e \<Rightarrow> failure_effects t ''Frame extraction failed: '' e
        | Inr n \<Rightarrow>
            progress_effects t c
              (update_data ''EXTRACT''
                 (''Frame extraction completed successfully. Extracted '' @ str_nat n @ '' frames'')
                 (PInt 30) [(''total_frames'', PInt (int n))]))"
proof -
  define w1 where "w1 = update_progress t c ''EXTRACT'' ''Starting frame extraction'' (PInt 15) [] w"
  obtain r w2 where x: "extract_frames ev p frames_dir True w1 = (r, w2)"
    by (cases "extract_frames ev p frames_dir True w1") auto
  have e2: "effects w2 = effects w1"
    using extract_frames_effects[of ev p frames_dir True w1] by (simp add: x)
  show ?thesis
    using assms x e2 unfolding stage_extract_def Let_def w1_def[symmetric]
    by (cases r) (auto simp: w1_def record_failure_effects simp del: record_failure_simps)
qed

lemma stage_analyze_effects:
  assumes "stage_analyze ev t c w = (res, w')"
  shows "effects w' = effects w
     @ progress_effects t c (update_data ''ANALYZE'' ''Starting video quality analysis'' (PInt 35) [])
     @ (case res of
          Inl e \<Rightarrow> failure_effects t ''Video analysis failed: '' e
        | Inr results \<Rightarrow>
            progress_effects t c
              (update_data ''ANALYZE''
                 (''Quality analysis completed. Analyzed '' @ str_nat (length results) @ '' frames'')
                 (PInt 50) [(''analyzed_frames'', PInt (int (length results)))])
            @ progress_effects t c
              (update_data ''ANALYZE''
                 (''Analysis summary: '' @ str_int (count_flag blurry results) @ '' blurry frames, ''
                    @ str_int (count_flag dark results) @ '' dark frames, ''
                    @ str_int (pipeline_good_count results) @ '' good frames'')
                 (PInt 50)
                 [(''blurry_count'', PInt (count_flag blurry results)),
                  (''dark_count'', PInt (count_flag dark results)),
                  (''good_count'', PInt (pipeline_good_count results))]))"
  using assms unfolding stage_analyze_def Let_def
  by (auto simp: record_failure_effects simp del: record_failure_simps split: sum.splits)

lemma rename_temp_effects [simp]: "effects (snd (rename_temp a b w)) = effects w"
  by (simp add: rename_temp_def rename_file_def split: option.splits)




lemma temp_path_eq: "py_replace ''.mp4'' ''_temp.mp4'' reconstructed_path = temp_path"
  by code_simp

lemma temp_path_neq: "temp_path \<noteq> reconstructed_path"
  by code_simp

lemma imread_vfiles [simp]: "imread (w\<lparr>vfiles := v\<rparr>) d f = imread w d f"
  by (rule imread_cong) simp

lemma write_frames_cong: "dirs w' = dirs w \<Longrightarrow> write_frames w' d fs = write_frames w d fs"
  by (induction fs) (simp_all add: imread_cong[of w' w] split: sum.splits option.splits)

lemma reconstruct_video_mux_failed:
  assumes "dirs w frame_dir = Some c"
    and "sort (filter (\<lambda>f. endswith f ''.jpg'') (map fst c)) = frames" and "frames \<noteq> []"
    and "imread w frame_dir (hd frames) = Inr (Some first_frame)"
    and "writer_opens ev (py_replace ''.mp4'' ''_temp.mp4'' output_path)"
    and "write_frames w frame_dir frames = (None, written)"
    and "orig \<noteq> []" and "vfiles w orig \<noteq> None"
    and "\<forall>v. ffmpeg_mux ev (Video written fps False) orig \<noteq> MuxOk v"
  shows "reconstruct_video ev frame_dir output_path (Some orig) fps w =
     (Inr output_path,
      (emit (ReconstructCall frame_dir output_path) w)
        \<lparr>vfiles := ((vfiles w)(py_replace ''.mp4'' ''_temp.mp4'' output_path := None))
                     (output_path \<mapsto> Video written fps False)\<rparr>)"
proof -
  let ?w = "emit (ReconstructCall frame_dir output_path) w"
  have wf: "write_frames ?w frame_dir frames = (None, written)"
    using assms(6) write_frames_cong[of ?w w] by simp
  show ?thesis
    using assms wf unfolding reconstruct_video_def Let_def
    by (cases "ffmpeg_mux ev (Video written fps False) orig")
       (auto simp: rename_temp_def rename_file_def)
qed

lemma extract_loop_vfiles [simp]:
  "vfiles (snd (extract_loop ev out al fps reads saved w)) = vfiles w"
  by (induction ev out al fps reads saved w rule: extract_loop.induct) (simp_all add: Let_def)

lemma extract_frames_vfiles [simp]:
  "vfiles (snd (extract_frames ev p out al w)) = vfiles w"
  by (simp add: extract_frames_def Let_def split: option.splits)

lemma pipeline_setup_vfiles [simp]: "vfiles (pipeline_setup t c p w) = vfiles w"
  by (simp add: pipeline_setup_def Let_def)

lemma stage_extract_vfiles: "stage_extract ev t c p w = (res, w') \<Longrightarrow> vfiles w' = vfiles w"
proof -
  assume a: "stage_extract ev t c p w = (res, w')"
  define w1 where "w1 = update_progress t c ''EXTRACT'' ''Starting frame extraction'' (PInt 15) [] w"
  obtain r w2 where x: "extract_frames ev p frames_dir True w1 = (r, w2)"
    by (cases "extract_frames ev p frames_dir True w1") auto
  have e2: "vfiles w2 = vfiles w1"
    using extract_frames_vfiles[of ev p frames_dir True w1] by (simp add: x)
  show ?thesis
    using a x e2 unfolding stage_extract_def Let_def w1_def[symmetric]
    by (cases r) (auto simp: w1_def)
qed

lemma stage_analyze_world:
  "stage_analyze ev t c w = (res, w') \<Longrightarrow> vfiles w' = vfiles w \<and> dirs w' = dirs w"
  unfolding stage_analyze_def Let_def by (auto split: sum.splits)

lemma enhance_image_vfiles [simp]:
  "vfiles (snd (enhance_image ev a b f w)) = vfiles w"
  by (simp add: enhance_image_def Let_def split: sum.splits option.splits)

lemma copy_file_vfiles [simp]: "vfiles (snd (copy_file a b f w)) = vfiles w"
  by (simp add: copy_file_def Let_def split: option.splits)

lemma enhance_loop_vfiles:
  "vfiles (snd (enhance_loop ev t c len i rs e cp w)) = vfiles w"
  by (induction rs arbitrary: i e cp w) (simp_all add: Let_def split: sum.splits)

lemma stage_enhance_vfiles: "stage_enhance ev t c results w = (res, w') \<Longrightarrow> vfiles w' = vfiles w"
proof -
  assume a: "stage_enhance ev t c results w = (res, w')"
  define w1 where "w1 = update_progress t c ''ENHANCE'' ''Starting frame enhancement'' (PInt 55) [] w"
  obtain lres w2 where l: "enhance_loop ev t c (length results) 0 results 0 0 w1 = (lres, w2)"
    by (cases "enhance_loop ev t c (length results) 0 results 0 0 w1") auto
  have "vfiles w2 = vfiles w1"
    using enhance_loop_vfiles[of ev t c "length results" 0 results 0 0 w1] by (simp add: l)
  then show ?thesis
    using a l unfolding stage_enhance_def Let_def w1_def[symmetric]
    by (cases lres) (auto simp: w1_def)
qed

lemma write_frames_update_progress [simp]:
  "write_frames (update_progress t c s m p meta w) d fs = write_frames w d fs"
  by (rule write_frames_cong) simp

lemma last_task_states_snoc [simp]:
  "last (task_states (xs @ [TaskState s d, Publish d'])) = (s, d)"
  "last (publications (xs @ [TaskState s d, Publish d'])) = d'"
  by simp_all

lemma demo_stage_extract:
  "stage_extract (demo_env demo_frames) True True ''/tmp/in.mp4''
     (pipeline_setup True True ''/tmp/in.mp4'' demo_w0) = (Inr 2, demo_w1)"
proof -
  have "fst (stage_extract (demo_env demo_frames) True True ''/tmp/in.mp4''
     (pipeline_setup True True ''/tmp/in.mp4'' demo_w0)) = Inr 2" by code_simp
  then show ?thesis by (simp add: prod_eq_iff demo_w1_def)
qed

lemma demo_stage_analyze:
  "stage_analyze (demo_env demo_frames) True True demo_w1 = (Inr demo_results, demo_w2)"
proof -
  have "fst (stage_analyze (demo_env demo_frames) True True demo_w1) = Inr demo_results" by code_simp
  then show ?thesis by (simp add: prod_eq_iff demo_w2_def)
qed

lemma demo_stage_enhance:
  "stage_enhance (demo_env demo_frames) True True demo_results demo_w2 = (Inr (1, 1), demo_w3)"
proof -
  have "fst (stage_enhance (demo_env demo_frames) True True demo_results demo_w2) = Inr (1, 1)" by code_simp
  then show ?thesis by (simp add: prod_eq_iff demo_w3_def)
qed

lemma enhance_loop_append_gen:
  "j = i + length xs \<Longrightarrow>
   enhance_loop ev t c len i (xs @ ys) e cp w =
     (case enhance_loop ev t c len i xs e cp w of
        (Inl err, w') \<Rightarrow> (Inl err, w')
      | (Inr (e', cp'), w') \<Rightarrow> enhance_loop ev t c len j ys e' cp' w')"
  by (induction xs arbitrary: i e cp w) (simp_all add: Let_def split: sum.splits)

lemma enhance_loop_append:
  "enhance_loop ev t c len i (xs @ ys) e cp w =
     (case enhance_loop ev t c len i xs e cp w of
        (Inl err, w') \<Rightarrow> (Inl err, w')
      | (Inr (e', cp'), w') \<Rightarrow> enhance_loop ev t c len (i + length xs) ys e' cp' w')"
  by (rule enhance_loop_append_gen) simp

lemma all_updates_append [simp]:
  "all_updates P (xs @ ys) \<longleftrightarrow> all_updates P xs \<and> all_updates P ys"
  by (auto simp: all_updates_def)

lemma all_updates_Nil [simp]: "all_updates P []"
  by (simp add: all_updates_def)

lemma all_updates_progress_effects [simp]:
  "all_updates P (progress_effects t c d) \<longleftrightarrow> (t \<or> c) \<longrightarrow> P d"
  by (auto simp: all_updates_def)

lemma all_updates_failure_effects [simp]:
  "all_updates P (failure_effects t pre e) \<longleftrightarrow> t \<longrightarrow> P [(''error'', PStr (pre @ str_error e))]"
  by (auto simp: all_updates_def)

lemma all_updates_calls [simp]:
  "all_updates P (EnhanceCall a b # E) = all_updates P E"
  "all_updates P (CopyCall a b # E) = all_updates P E"
  "all_updates P (ModelCall i # E) = all_updates P E"
  "all_updates P (ReconstructCall a b # E) = all_updates P E"
  "all_updates P (TaskState s d # E) \<longleftrightarrow> P d \<and> all_updates P E"
  "all_updates P (Publish d # E) \<longleftrightarrow> P d \<and> all_updates P E"
  by (auto simp: all_updates_def)

lemma all_updates_ModelCalls [simp]: "all_updates P (map ModelCall ms)"
  by (simp add: all_updates_def)

lemma list_all_loop_updates:
  assumes "\<And>s m p i e c. P (update_data s m p (frame_meta i n e c))"
  shows "list_all P (loop_updates n i rs e c)"
  by (induction rs arbitrary: i e c) (simp_all add: assms)

lemma loop_post_all_updates:
  assumes "loop_post t c n i rs e cp res k E"
    and "\<And>s m p i e c. P (update_data s m p (frame_meta i n e c))"
  shows "all_updates P E"
  using assms(1) list_all_loop_updates[of P n, OF assms(2)]
  by (auto simp: loop_post_def all_updates_def list_all_iff)

lemma no_artifact_simple [simp]:
  "no_artifact (update_data s m p [])"
  "no_artifact (update_data s m p [(''video_path'', v)])"
  "no_artifact (update_data s m p [(''total_frames'', v)])"
  "no_artifact (update_data s m p [(''analyzed_frames'', v)])"
  "no_artifact (update_data s m p [(''blurry_count'', v1), (''dark_count'', v2), (''good_count'', v3)])"
  "no_artifact (update_data s m p [(''enhanced_count'', v1), (''copied_count'', v2)])"
  "no_artifact (update_data s m p (frame_meta i n e c))"
  "no_artifact [(''error'', v)]"
  "no_artifact [(''status'', v1), (''error'', v2), (''video_path'', v3)]"
  "no_artifact [(''state'', v1), (''status'', v2), (''error'', v3)]"
  "no_artifact [(''status'', v1), (''video_path'', v2)]"
  by (simp_all add: no_artifact_def dict_get_update_data frame_meta_def) (simp_all add: dict_get_def)

lemma fail_stage_extract:
  "stage_extract failing_env True True ''/tmp/in.mp4''
     (pipeline_setup True True ''/tmp/in.mp4'' demo_w0) = (Inr 2, fail_w1)"
proof -
  have "fst (stage_extract failing_env True True ''/tmp/in.mp4''
     (pipeline_setup True True ''/tmp/in.mp4'' demo_w0)) = Inr 2" by code_simp
  then show ?thesis by (simp add: prod_eq_iff fail_w1_def)
qed

lemma fail_stage_analyze:
  "stage_analyze failing_env True True fail_w1 = (Inr demo_results, fail_w2)"
proof -
  have "fst (stage_analyze failing_env True True fail_w1) = Inr demo_results" by code_simp
  then show ?thesis by (simp add: prod_eq_iff fail_w2_def)
qed


lemma dirs_store_file_defined: "dirs w d \<noteq> None \<Longrightarrow> dirs (store_file d' f x w) d \<noteq> None"
  by (auto simp: store_file_def split: option.splits)













section \<open>Claims\<close>

text \<open>
  C5. The reported "good" count is the number of frames with all four flags false, so
  frames with overlapping flags are not subtracted twice and the count is never negative.
  The code subtracts the flag counts from the length instead: for one frame that is both
  blurry and dark, \<open>analyze_video\<close> logs -1 good frames and \<open>run_pipeline\<close> reports
  \<open>good_count = -1\<close>, where no frame has all four flags false, so the count should be 0.
\<close>

theorem good_count_overlapping_flags:
  "analyzer_good_count [verdict_of True True False False ''frame_000000.jpg''] = - 1
   \<and> pipeline_good_count [verdict_of True True False False ''frame_000000.jpg''] = - 1
   \<and> length (filter (\<lambda>r. \<not> blurry r \<and> \<not> dark r \<and> \<not> low_resolution r \<and> \<not> pixelated r)
         [verdict_of True True False False ''frame_000000.jpg'']) = 0"
  by (simp add: analyzer_good_count_def pipeline_good_count_def count_flag_def verdict_of_def)

text \<open>
  C1. Route-and-Enhance passes a frame to \<open>enhance_image\<close> if and only if its
  verdict is blurry or dark, and copies every other frame; the flags
  \<open>low_resolution\<close> and \<open>pixelated\<close> play no part. For every run of step 3 over
  the analyzed results, whatever its outcome, the files handed to \<open>enhance_image\<close>
  are those of the blurry-or-dark verdicts among the \<open>k\<close> frames processed, in order,
  and the files handed to \<open>shutil.copy\<close> are those of the others; a run that
  completes has processed all frames.
\<close>

theorem routing_by_blurry_or_dark:
  assumes "stage_enhance ev t c results w = (res, w')"
  shows "\<exists>k \<le> length results.
      enhance_calls (new_effects w w') =
        map frame_paths (filter (\<lambda>r. blurry r \<or> dark r) (take k results))
    \<and> copy_calls (new_effects w w') =
        map frame_paths (filter (\<lambda>r. \<not> (blurry r \<or> dark r)) (take k results))
    \<and> (case res of Inr _ \<Rightarrow> k = length results | Inl _ \<Rightarrow> 0 < k)"
proof -
  from stage_enhance_effects[OF assms] obtain k E where
    E: "loop_post t c (length results) 0 results 0 0 res k E"
    and eff: "effects w' = effects w
        @ progress_effects t c (update_data ''ENHANCE'' ''Starting frame enhancement'' (PInt 55) [])
        @ E
        @ (case res of
             Inl e \<Rightarrow> failure_effects t ''Frame processing failed: '' e
           | Inr (en, cp) \<Rightarrow>
               progress_effects t c
                 (update_data ''ENHANCE''
                    (''Frame processing completed: '' @ str_nat en @ '' enhanced, '' @ str_nat cp @ '' copied'')
                    (PInt 85)
                    [(''enhanced_count'', PInt (int en)), (''copied_count'', PInt (int cp))]))"
    by blast
  have ne: "new_effects w w' = progress_effects t c (update_data ''ENHANCE'' ''Starting frame enhancement'' (PInt 55) [])
        @ E
        @ (case res of
             Inl e \<Rightarrow> failure_effects t ''Frame processing failed: '' e
           | Inr (en, cp) \<Rightarrow>
               progress_effects t c
                 (update_data ''ENHANCE''
                    (''Frame processing completed: '' @ str_nat en @ '' enhanced, '' @ str_nat cp @ '' copied'')
                    (PInt 85)
                    [(''enhanced_count'', PInt (int en)), (''copied_count'', PInt (int cp))]))"
    using eff by (rule new_effects_append)
  have r: "routed = (\<lambda>r. blurry r \<or> dark r)" by (simp add: routed_def fun_eq_iff)
  show ?thesis
    using E unfolding ne loop_post_def r
    by (intro exI[of _ k]) (auto split: sum.splits)
qed

theorem routing_by_blurry_or_dark_witness:
  "enhance_calls (new_effects w_two (snd (stage_enhance (demo_env []) True True rs_two w_two)))
     = [(''ml_output/frames/frame_000001.jpg'', ''ml_output/enhanced/frame_000001.jpg'')]
   \<and> copy_calls (new_effects w_two (snd (stage_enhance (demo_env []) True True rs_two w_two)))
     = [(''ml_output/frames/frame_000000.jpg'', ''ml_output/enhanced/frame_000000.jpg'')]
   \<and> low_resolution (rs_two ! 0) \<and> \<not> blurry (rs_two ! 0) \<and> \<not> dark (rs_two ! 0)
   \<and> lookup_file (snd (stage_enhance (demo_env []) True True rs_two w_two)) enhanced_dir ''frame_000000.jpg''
     = lookup_file w_two frames_dir ''frame_000000.jpg''"
proof -
  have h: "stage_enhance (demo_env []) True True rs_two w_two =
     (fst (stage_enhance (demo_env []) True True rs_two w_two),
      snd (stage_enhance (demo_env []) True True rs_two w_two))" by simp
  have r: "fst (stage_enhance (demo_env []) True True rs_two w_two) = Inr (1, 1)" by code_simp
  have f: "filter (\<lambda>r. blurry r \<or> dark r) rs_two = [verdict_of True False False False ''frame_000001.jpg'']"
     "filter (\<lambda>r. \<not> (blurry r \<or> dark r)) rs_two = [verdict_of False False True False ''frame_000000.jpg'']"
     "length rs_two = 2"
    by (simp_all add: rs_two_def verdict_of_def)
  have p: "frame_paths (verdict_of True False False False ''frame_000001.jpg'') = (''ml_output/frames/frame_000001.jpg'', ''ml_output/enhanced/frame_000001.jpg'')"
    "frame_paths (verdict_of False False True False ''frame_000000.jpg'') = (''ml_output/frames/frame_000000.jpg'', ''ml_output/enhanced/frame_000000.jpg'')"
    by (simp_all add: frame_paths_def verdict_of_def path_join_def frames_dir_def enhanced_dir_def)
  have l: "lookup_file (snd (stage_enhance (demo_env []) True True rs_two w_two)) enhanced_dir ''frame_000000.jpg''
     = lookup_file w_two frames_dir ''frame_000000.jpg''" by code_simp
  have v: "low_resolution (rs_two ! 0) \<and> \<not> blurry (rs_two ! 0) \<and> \<not> dark (rs_two ! 0)"
    by (simp add: rs_two_def verdict_of_def)
  from routing_by_blurry_or_dark[OF h] show ?thesis
    unfolding r using f p l v by auto
qed



text \<open>
  C10. For a frame routed to enhancement (blurry or dark) whose image is neither
  low-resolution nor pixelated, \<open>enhance_image\<close> writes the input image to the output
  unchanged, does not invoke the model and returns False; the pipeline still counts the
  frame as enhanced. So \<open>enhanced_count\<close> is the number of blurry-or-dark verdicts,
  whatever \<open>enhance_image\<close> returned.
\<close>

theorem copy_mode_counts_as_enhanced:
  assumes "lookup_file w frames_dir (filename r) = Some (Img img)"
    and "\<not> is_low_resolution img" and "\<not> is_pixelated ev img"
    and "imwrite_ok ev (path_join enhanced_dir (filename r)) img"
    and "dirs w enhanced_dir \<noteq> None"
    and "blurry r \<or> dark r"
  shows "fst (enhance_image ev frames_dir enhanced_dir (filename r) w) = Inr False
    \<and> lookup_file (snd (enhance_image ev frames_dir enhanced_dir (filename r) w)) enhanced_dir
        (filename r) = Some (Img img)
    \<and> model_calls (new_effects w (snd (enhance_image ev frames_dir enhanced_dir (filename r) w))) = []
    \<and> fst (stage_enhance ev t c [r] w) = Inr (1, 0)
    \<and> model_calls (new_effects w (snd (stage_enhance ev t c [r] w))) = []
    \<and> (\<forall>results w0 en cp w1.
          stage_enhance ev t c results w0 = (Inr (en, cp), w1) \<longrightarrow>
          en = length (filter (\<lambda>r. blurry r \<or> dark r) results))"
proof -
  let ?call = "EnhanceCall (path_join frames_dir (filename r)) (path_join enhanced_dir (filename r))"
  have a: "enhance_image ev frames_dir enhanced_dir (filename r) w =
     (Inr False, store_file enhanced_dir (filename r) (Img img) (emit ?call w))"
    by (rule enhance_image_copy_mode[OF assms(1-5)])
  have a1: "fst (enhance_image ev frames_dir enhanced_dir (filename r) w) = Inr False"
    by (simp add: a)
  have a2: "lookup_file (snd (enhance_image ev frames_dir enhanced_dir (filename r) w)) enhanced_dir
        (filename r) = Some (Img img)"
    using assms(5) by (simp add: a lookup_file_store_same)
  have "effects (snd (enhance_image ev frames_dir enhanced_dir (filename r) w)) = effects w @ [?call]"
    by (simp add: a)
  then have a3: "model_calls (new_effects w (snd (enhance_image ev frames_dir enhanced_dir (filename r) w))) = []"
    by simp
  define w1 where "w1 = update_progress t c ''ENHANCE'' (enhancing_message 0 (length [r]) r)
       (PFloat (frame_progress 0 (length [r]))) (frame_meta 0 (length [r]) 0 0)
       (update_progress t c ''ENHANCE'' ''Starting frame enhancement'' (PInt 55) [] w)"
  have w1: "lookup_file w1 frames_dir (filename r) = Some (Img img)" "dirs w1 enhanced_dir \<noteq> None"
    using assms(1,5) by (simp_all add: w1_def)
  have b: "enhance_image ev frames_dir enhanced_dir (filename r) w1 =
     (Inr False, store_file enhanced_dir (filename r) (Img img) (emit ?call w1))"
    by (rule enhance_image_copy_mode[OF w1(1) assms(2-4) w1(2)])
  have s: "stage_enhance ev t c [r] w =
     (Inr (1, 0),
      update_progress t c ''ENHANCE''
        (''Frame processing completed: '' @ str_nat 1 @ '' enhanced, '' @ str_nat 0 @ '' copied'')
        (PInt 85) [(''enhanced_count'', PInt (int 1)), (''copied_count'', PInt (int 0))]
        (store_file enhanced_dir (filename r) (Img img) (emit ?call w1)))"
    using assms(6) b unfolding w1_def by (simp add: stage_enhance_def Let_def)
  have b1: "fst (stage_enhance ev t c [r] w) = Inr (1, 0)" by (simp add: s)
  have "\<exists>E. effects (snd (stage_enhance ev t c [r] w)) = effects w @ E \<and> model_calls E = []"
    by (simp add: s w1_def)
  then have b2: "model_calls (new_effects w (snd (stage_enhance ev t c [r] w))) = []"
    by auto
  have g: "\<forall>results w0 en cp w1.
          stage_enhance ev t c results w0 = (Inr (en, cp), w1) \<longrightarrow>
          en = length (filter (\<lambda>r. blurry r \<or> dark r) results)"
    using stage_enhance_count by blast
  from a1 a2 a3 b1 b2 g show ?thesis by blast
qed

theorem copy_mode_counts_as_enhanced_witness:
  "fst (enhance_image (demo_env []) frames_dir enhanced_dir ''frame_000001.jpg'' w_two) = Inr False
   \<and> lookup_file (snd (enhance_image (demo_env []) frames_dir enhanced_dir ''frame_000001.jpg'' w_two))
        enhanced_dir ''frame_000001.jpg'' = Some (Img img_hd_blurry)
   \<and> model_calls (new_effects w_two
        (snd (enhance_image (demo_env []) frames_dir enhanced_dir ''frame_000001.jpg'' w_two))) = []
   \<and> fst (stage_enhance (demo_env []) True True
        [verdict_of True False False False ''frame_000001.jpg''] w_two) = Inr (1, 0)
   \<and> model_calls (new_effects w_two (snd (stage_enhance (demo_env []) True True
        [verdict_of True False False False ''frame_000001.jpg''] w_two))) = []"
proof -
  have f: "filename (verdict_of True False False False ''frame_000001.jpg'') = ''frame_000001.jpg''"
    by (simp add: verdict_of_def)
  have h1: "lookup_file w_two frames_dir (filename (verdict_of True False False False ''frame_000001.jpg''))
      = Some (Img img_hd_blurry)"
    unfolding f by code_simp
  have h2: "\<not> is_low_resolution img_hd_blurry" by code_simp
  have h3: "\<not> is_pixelated (demo_env []) img_hd_blurry" by code_simp
  have h4: "imwrite_ok (demo_env []) (path_join enhanced_dir
      (filename (verdict_of True False False False ''frame_000001.jpg''))) img_hd_blurry"
    by (simp add: demo_env_def)
  have h5: "dirs w_two enhanced_dir \<noteq> None" by code_simp
  have h6: "blurry (verdict_of True False False False ''frame_000001.jpg'')
     \<or> dark (verdict_of True False False False ''frame_000001.jpg'')"
    by (simp add: verdict_of_def)
  from copy_mode_counts_as_enhanced[OF h1 h2 h3 h4 h5 h6, of True True] show ?thesis
    unfolding f by blast
qed

text \<open>
  C4. Every output frame of Route-and-Enhance has the dimensions of its input frame, an
  enhanced output of another size being resized back. \<open>enhance_image\<close> and
  \<open>run_pipeline\<close> have no resize: a blurry 640x360 frame is routed to the model, the
  model (x2) returns 1280x720, and that image is what is written to the enhanced
  directory. The same loop in \<open>comparison_generator.py\<close> does resize the file back
  after \<open>enhance_image\<close>.
\<close>

theorem enhanced_frame_dimensions_differ:
  "lookup_file w_small frames_dir ''frame_000000.jpg''
     = Some (Img \<lparr>height = 360, width = 640, pixels = [10]\<rparr>)
   \<and> fst (stage_enhance (demo_env []) True True
        [verdict_of True False True False ''frame_000000.jpg''] w_small) = Inr (1, 0)
   \<and> lookup_file (snd (stage_enhance (demo_env []) True True
        [verdict_of True False True False ''frame_000000.jpg''] w_small))
        enhanced_dir ''frame_000000.jpg''
     = Some (Img \<lparr>height = 720, width = 1280, pixels = [10]\<rparr>)"
  by code_simp

text \<open>
  C9. When frame-writing succeeds and the audio-muxing subprocess fails (non-zero return
  code or an exception), \<open>reconstruct_video\<close> still returns the video-only artifact
  at the requested output path, the temporary video being renamed to it, and the job
  completes. For a task whose download, extraction, analysis and enhancement succeeded,
  whose enhanced directory holds a readable first frame, whose writer opens, whose frame
  reads do not raise and whose upload succeeds: if ffmpeg fails either way, the task
  returns normally, the output path holds the frames written, without audio, the
  temporary file is gone, and the last task state and the last publication are SUCCESS.
\<close>

theorem audio_mux_failure_still_completes:
  assumes "split_bucket_key video_path = Inr (bucket, key)"
    and "download ev bucket key = Inr (local_path, content)"
    and "local_path \<noteq> []" and "local_path \<noteq> reconstructed_path"
    and "stage_extract ev True True local_path
           (pipeline_setup True True local_path (task_started video_path local_path content w))
         = (Inr n, w1)"
    and "stage_analyze ev True True w1 = (Inr results, w2)"
    and "stage_enhance ev True True results w2 = (Inr (en, cp), w3)"
    and "dirs w3 enhanced_dir = Some c"
    and "sort (filter (\<lambda>f. endswith f ''.jpg'') (map fst c)) = frames" and "frames \<noteq> []"
    and "imread w3 enhanced_dir (hd frames) = Inr (Some first_frame)"
    and "writer_opens ev temp_path"
    and "write_frames w3 enhanced_dir frames = (None, written)"
    and "ffmpeg_mux ev (Video written 24 False) local_path = MuxFailed stderr
         \<or> ffmpeg_mux ev (Video written 24 False) local_path = MuxRaised err"
    and "upload ev (Video written 24 False) bucket ''enhanced/reconstructed.mp4'' = None"
  shows "\<exists>tr w'. run_pipeline_task ev video_path w = (Inr tr, w')
    \<and> vfiles w' reconstructed_path = Some (Video written 24 False)
    \<and> vfiles w' temp_path = None
    \<and> fst (last (task_states (effects w'))) = ''SUCCESS''
    \<and> dict_get (last (publications (effects w'))) ''state'' = Some (PStr ''SUCCESS'')
    \<and> reconstruct_calls (new_effects w w') = [(enhanced_dir, reconstructed_path)]"
proof -
  define w0 where "w0 = task_started video_path local_path content w"
  define w3' where "w3' = update_progress True True ''RECONSTRUCT'' ''Starting video reconstruction'' (PInt 90) [] w3"
  have v0: "vfiles w0 local_path \<noteq> None" by (simp add: w0_def task_started_def)
  have v1: "vfiles w1 = vfiles w0"
    using stage_extract_vfiles[OF assms(5)] by (simp add: w0_def)
  have v2: "vfiles w2 = vfiles w1" using stage_analyze_world[OF assms(6)] by simp
  have v3: "vfiles w3 = vfiles w2" by (rule stage_enhance_vfiles[OF assms(7)])
  have orig: "vfiles w3' local_path \<noteq> None" using v0 v1 v2 v3 by (simp add: w3'_def)
  have nomux: "\<forall>v. ffmpeg_mux ev (Video written 24 False) local_path \<noteq> MuxOk v"
    using assms(14) by auto
  have rec: "reconstruct_video ev enhanced_dir reconstructed_path (Some local_path) 24 w3' =
     (Inr reconstructed_path,
      (emit (ReconstructCall enhanced_dir reconstructed_path) w3')
        \<lparr>vfiles := ((vfiles w3')(py_replace ''.mp4'' ''_temp.mp4'' reconstructed_path := None))
                     (reconstructed_path \<mapsto> Video written 24 False)\<rparr>)"
    by (rule reconstruct_video_mux_failed[where c = c and frames = frames and first_frame = first_frame])
       (use assms orig nomux in \<open>simp_all add: w3'_def temp_path_eq\<close>)
  define w4 where "w4 = update_progress True True ''RECONSTRUCT''
             (''Video reconstruction completed: '' @ reconstructed_path)
             (PInt 95) [(''output_path'', PStr reconstructed_path)]
        ((emit (ReconstructCall enhanced_dir reconstructed_path) w3')
        \<lparr>vfiles := ((vfiles w3')(temp_path := None))
                     (reconstructed_path \<mapsto> Video written 24 False)\<rparr>)"
  have sr: "stage_reconstruct ev True True local_path w3 = (Inr reconstructed_path, w4)"
    unfolding stage_reconstruct_def Let_def w3'_def[symmetric] rec w4_def temp_path_eq by simp
  define w5 where "w5 = pipeline_complete True True results en cp w4"
  have rp: "run_pipeline ev True True local_path w0 = (Inr results, w5)"
    unfolding run_pipeline_def w5_def
    using assms(5,6,7) sr by (simp add: w0_def)
  have v5: "vfiles w5 reconstructed_path = Some (Video written 24 False)" "vfiles w5 temp_path = None"
    by (simp_all add: w5_def w4_def pipeline_complete_def temp_path_neq)
  let ?out = "bucket @ ''/'' @ ''enhanced/reconstructed.mp4''"
  have task: "run_pipeline_task ev video_path w = task_success video_path local_path ?out results w5"
    unfolding run_pipeline_task_def Let_def
    using assms(1,2,15) rp v5 by (simp add: w0_def)
  obtain tr w' where tw: "task_success video_path local_path ?out results w5 = (Inr tr, w')"
    by (simp add: task_success_def Let_def)
  have w': "w' = remove_file local_path
      (emit (Publish [(''state'', PStr ''SUCCESS''),
                      (''status'', PStr ''Pipeline completed successfully''),
                      (''output_path'', PStr ?out)])
        (emit (TaskState ''SUCCESS''
                   [(''status'', PStr ''Pipeline completed successfully''),
                    (''video_path'', PStr video_path),
                    (''total_frames'', PInt (int (length results))),
                    (''enhanced_frames'', PInt (int (enhanced_frames results))),
                    (''output_path'', PStr ?out)]) w5))"
    using tw by (simp add: task_success_def Let_def)
  have c1: "vfiles w' reconstructed_path = Some (Video written 24 False)"
    using v5 assms(4) by (simp add: w' remove_file_def)
  have c2: "vfiles w' temp_path = None"
    using v5 by (simp add: w' remove_file_def)
  have c3: "fst (last (task_states (effects w'))) = ''SUCCESS''"
    "dict_get (last (publications (effects w'))) ''state'' = Some (PStr ''SUCCESS'')"
    by (simp_all add: w' remove_file_def dict_get_def)
  have e5: "\<exists>E. effects w5 = effects w0 @ E \<and> reconstruct_calls E = [(enhanced_dir, reconstructed_path)]"
  proof -
    from stage_enhance_effects[OF assms(7)] obtain k E where
      "loop_post True True (length results) 0 results 0 0 (Inr (en, cp)) k E"
      "effects w3 = effects w2
        @ progress_effects True True (update_data ''ENHANCE'' ''Starting frame enhancement'' (PInt 55) [])
        @ E
        @ (case (Inr (en, cp) :: error + nat \<times> nat) of
             Inl e \<Rightarrow> failure_effects True ''Frame processing failed: '' e
           | Inr (en, cp) \<Rightarrow>
               progress_effects True True
                 (update_data ''ENHANCE''
                    (''Frame processing completed: '' @ str_nat en @ '' enhanced, '' @ str_nat cp @ '' copied'')
                    (PInt 85)
                    [(''enhanced_count'', PInt (int en)), (''copied_count'', PInt (int cp))]))"
      by blast
    then have e3: "\<exists>E3. effects w3 = effects w2 @ E3 \<and> reconstruct_calls E3 = []"
      by (auto simp: loop_post_def)
    have e2: "\<exists>E2. effects w2 = effects w1 @ E2 \<and> reconstruct_calls E2 = []"
      using stage_analyze_effects[OF assms(6)] by auto
    have e1: "\<exists>E1. effects w1 = effects w0 @ E1 \<and> reconstruct_calls E1 = []"
      using stage_extract_effects[OF assms(5)] by (auto simp: pipeline_setup_effects w0_def)
    have e4: "\<exists>E4. effects w5 = effects w3 @ E4 \<and> reconstruct_calls E4 = [(enhanced_dir, reconstructed_path)]"
      by (simp add: w5_def w4_def w3'_def pipeline_complete_def)
    from e1 e2 e3 e4 show ?thesis by auto
  qed
  then obtain E where E: "effects w5 = effects w0 @ E" "reconstruct_calls E = [(enhanced_dir, reconstructed_path)]"
    by blast
  have "\<exists>E'. effects w' = effects w @ E' \<and> reconstruct_calls E' = [(enhanced_dir, reconstructed_path)]"
    using E by (simp add: w' remove_file_def w0_def task_started_def)
  then have c4: "reconstruct_calls (new_effects w w') = [(enhanced_dir, reconstructed_path)]"
    by auto
  from task tw c1 c2 c3 c4 show ?thesis by auto
qed


theorem audio_mux_failure_still_completes_witness:
  "\<exists>tr w'. run_pipeline_task (demo_env demo_frames) ''videos/a.mp4'' empty_world = (Inr tr, w')
    \<and> vfiles w' reconstructed_path = Some (Video demo_enhanced 24 False)
    \<and> vfiles w' temp_path = None
    \<and> fst (last (task_states (effects w'))) = ''SUCCESS''
    \<and> dict_get (last (publications (effects w'))) ''state'' = Some (PStr ''SUCCESS'')
    \<and> reconstruct_calls (new_effects empty_world w') = [(enhanced_dir, reconstructed_path)]"
proof -
  have h1: "split_bucket_key ''videos/a.mp4'' = Inr (''videos'', ''a.mp4'')" by code_simp
  have h2: "download (demo_env demo_frames) ''videos'' ''a.mp4'' = Inr (''/tmp/in.mp4'', Video [] 24 True)"
    by (simp add: demo_env_def)
  have h3: "''/tmp/in.mp4'' \<noteq> []" by simp
  have h4: "''/tmp/in.mp4'' \<noteq> reconstructed_path" by code_simp
  have h5: "stage_extract (demo_env demo_frames) True True ''/tmp/in.mp4''
     (pipeline_setup True True ''/tmp/in.mp4''
        (task_started ''videos/a.mp4'' ''/tmp/in.mp4'' (Video [] 24 True) empty_world)) = (Inr 2, demo_w1)"
    using demo_stage_extract by (simp add: demo_w0_def)
  have h8: "dirs demo_w3 enhanced_dir =
     Some [(''frame_000000.jpg'', Img \<lparr>height = 720, width = 1280, pixels = [10]\<rparr>),
           (''frame_000001.jpg'', Img img_hd_sharp)]" by code_simp
  have h9: "sort (filter (\<lambda>f. endswith f ''.jpg'')
        (map fst [(''frame_000000.jpg'', Img \<lparr>height = 720, width = 1280, pixels = [10]\<rparr>),
           (''frame_000001.jpg'', Img img_hd_sharp)])) = [''frame_000000.jpg'', ''frame_000001.jpg'']"
    by code_simp
  have h10: "[''frame_000000.jpg'', ''frame_000001.jpg''] \<noteq> []" by simp
  have h11: "imread demo_w3 enhanced_dir (hd [''frame_000000.jpg'', ''frame_000001.jpg''])
     = Inr (Some \<lparr>height = 720, width = 1280, pixels = [10]\<rparr>)" by code_simp
  have h12: "writer_opens (demo_env demo_frames) temp_path" by (simp add: demo_env_def)
  have h13: "write_frames demo_w3 enhanced_dir [''frame_000000.jpg'', ''frame_000001.jpg'']
     = (None, demo_enhanced)" by code_simp
  have h14: "ffmpeg_mux (demo_env demo_frames) (Video demo_enhanced 24 False) ''/tmp/in.mp4''
        = MuxFailed ''Stream map 1:a:0 matches no streams''
      \<or> ffmpeg_mux (demo_env demo_frames) (Video demo_enhanced 24 False) ''/tmp/in.mp4''
        = MuxRaised ZeroDivisionError" by (simp add: demo_env_def)
  have h15: "upload (demo_env demo_frames) (Video demo_enhanced 24 False) ''videos''
     ''enhanced/reconstructed.mp4'' = None" by (simp add: demo_env_def)
  show ?thesis
    by (rule audio_mux_failure_still_completes[OF h1 h2 h3 h4 h5 demo_stage_analyze
          demo_stage_enhance h8 h9 h10 h11 h12 h13 h14 h15])
qed

text \<open>
  C2. When \<open>enhance_image\<close> raises on a routed frame, the pipeline halts at once: no
  later frame is processed and \<open>reconstruct_video\<close> is never invoked; the job
  becomes Failed with the enhancement-stage error recorded, and no output artifact is
  ever referenced. For a task whose download, extraction and analysis succeeded, with
  results \<open>pre @ r # post\<close>, where step 3 got through \<open>pre\<close> and \<open>enhance_image\<close>
  raised \<open>e\<close> on the blurry-or-dark frame \<open>r\<close>: the task raises \<open>e\<close>; the files
  passed to \<open>enhance_image\<close> and \<open>shutil.copy\<close> are those of \<open>pre\<close> and \<open>r\<close>
  only; there is no call of \<open>reconstruct_video\<close>; the task state is set to FAILURE
  with "Frame processing failed: ..." by \<open>run_pipeline\<close> and to FAILURE again by the
  task, which also publishes the failure; no update carries \<open>output_path\<close> or
  \<open>final_output\<close>; and the only video file written is the downloaded input.
\<close>

theorem enhancement_failure_aborts_job:
  assumes "split_bucket_key video_path = Inr (bucket, key)"
    and "download ev bucket key = Inr (local_path, content)"
    and "stage_extract ev True True local_path
           (pipeline_setup True True local_path (task_started video_path local_path content w))
         = (Inr n, w1)"
    and "stage_analyze ev True True w1 = (Inr (pre @ r # post), w2)"
    and "enhance_loop ev True True (length (pre @ r # post)) 0 pre 0 0
           (update_progress True True ''ENHANCE'' ''Starting frame enhancement'' (PInt 55) [] w2)
         = (Inr (en, cp), w3)"
    and "blurry r \<or> dark r"
    and "fst (enhance_image ev frames_dir enhanced_dir (filename r)
           (update_progress True True ''ENHANCE''
              (enhancing_message (length pre) (length (pre @ r # post)) r)
              (PFloat (frame_progress (length pre) (length (pre @ r # post))))
              (frame_meta (length pre) (length (pre @ r # post)) en cp) w3)) = Inl e"
  shows "\<exists>w'. run_pipeline_task ev video_path w = (Inl e, w')
    \<and> enhance_calls (new_effects w w') =
        map frame_paths (filter (\<lambda>r. blurry r \<or> dark r) (pre @ [r]))
    \<and> copy_calls (new_effects w w') =
        map frame_paths (filter (\<lambda>r. \<not> (blurry r \<or> dark r)) pre)
    \<and> reconstruct_calls (new_effects w w') = []
    \<and> last (task_states (effects w')) =
        (''FAILURE'', [(''status'', PStr ''Pipeline failed''), (''error'', PStr (str_error e)),
                       (''video_path'', PStr video_path)])
    \<and> last (butlast (task_states (effects w'))) =
        (''FAILURE'', [(''error'', PStr (''Frame processing failed: '' @ str_error e))])
    \<and> dict_get (last (publications (effects w'))) ''state'' = Some (PStr ''FAILURE'')
    \<and> all_updates no_artifact (new_effects w w')
    \<and> vfiles w' = (vfiles w)(local_path \<mapsto> content)"
proof -
  let ?n = "length (pre @ r # post)"
  define w0 where "w0 = task_started video_path local_path content w"
  define w2' where "w2' = update_progress True True ''ENHANCE'' ''Starting frame enhancement'' (PInt 55) [] w2"
  define w3' where "w3' = update_progress True True ''ENHANCE''
              (enhancing_message (length pre) ?n r)
              (PFloat (frame_progress (length pre) ?n))
              (frame_meta (length pre) ?n en cp) w3"
  define res where "res = enhance_image ev frames_dir enhanced_dir (filename r) w3'"
  have fr: "fst res = Inl e" using assms(7) by (simp add: res_def w3'_def)
  have loop: "enhance_loop ev True True ?n 0 (pre @ r # post) 0 0 w2' = (Inl e, snd res)"
    using assms(5,6) fr
    by (simp add: enhance_loop_append w2'_def Let_def res_def w3'_def del: length_append)
  define w4 where "w4 = record_failure True ''Frame processing failed: '' e (snd res)"
  have se: "stage_enhance ev True True (pre @ r # post) w2 = (Inl e, w4)"
    unfolding stage_enhance_def Let_def w2'_def[symmetric] loop w4_def by simp
  have rp: "run_pipeline ev True True local_path w0 = (Inl e, w4)"
    unfolding run_pipeline_def using assms(3,4) se by (simp add: w0_def)
  define w' where "w' = snd (task_failure video_path e w4)"
  have task: "run_pipeline_task ev video_path w = (Inl e, w')"
    unfolding run_pipeline_task_def Let_def w'_def
    using assms(1,2) rp by (simp add: w0_def task_failure_def)
  \<comment> \<open>effects\<close>
  from enhance_loop_effects[OF assms(5)] obtain k E where
    E: "effects w3 = effects w2' @ E" "loop_post True True ?n 0 pre 0 0 (Inr (en, cp)) k E"
    by (auto simp: w2'_def)
  obtain ms where ms: "effects (snd res) = effects w3' @
      EnhanceCall (path_join frames_dir (filename r)) (path_join enhanced_dir (filename r)) # map ModelCall ms"
    unfolding res_def using enhance_image_effects_ex by blast
  define T where "T =
      [TaskState ''STARTED'' [(''status'', PStr ''Pipeline started''), (''video_path'', PStr video_path)]]
      @ (progress_effects True True (update_data ''INIT'' ''Pipeline started'' (PInt 0) [(''video_path'', PStr local_path)])
      @ progress_effects True True (update_data ''SETUP'' ''Creating output directories'' (PInt 5) [])
      @ progress_effects True True (update_data ''SETUP'' ''Output directories created successfully'' (PInt 10) []))
      @ (progress_effects True True (update_data ''EXTRACT'' ''Starting frame extraction'' (PInt 15) [])
      @ progress_effects True True
              (update_data ''EXTRACT''
                 (''Frame extraction completed successfully. Extracted '' @ str_nat n @ '' frames'')
                 (PInt 30) [(''total_frames'', PInt (int n))]))
      @ (progress_effects True True (update_data ''ANALYZE'' ''Starting video quality analysis'' (PInt 35) [])
      @ progress_effects True True
              (update_data ''ANALYZE''
                 (''Quality analysis completed. Analyzed '' @ str_nat ?n @ '' frames'')
                 (PInt 50) [(''analyzed_frames'', PInt (int ?n))])
      @ progress_effects True True
              (update_data ''ANALYZE''
                 (''Analysis summary: '' @ str_int (count_flag blurry (pre @ r # post)) @ '' blurry frames, ''
                    @ str_int (count_flag dark (pre @ r # post)) @ '' dark frames, ''
                    @ str_int (pipeline_good_count (pre @ r # post)) @ '' good frames'')
                 (PInt 50)
                 [(''blurry_count'', PInt (count_flag blurry (pre @ r # post))),
                  (''dark_count'', PInt (count_flag dark (pre @ r # post))),
                  (''good_count'', PInt (pipeline_good_count (pre @ r # post)))]))
      @ progress_effects True True (update_data ''ENHANCE'' ''Starting frame enhancement'' (PInt 55) [])
      @ E
      @ progress_effects True True (update_data ''ENHANCE''
              (enhancing_message (length pre) ?n r)
              (PFloat (frame_progress (length pre) ?n))
              (frame_meta (length pre) ?n en cp))
      @ EnhanceCall (path_join frames_dir (filename r)) (path_join enhanced_dir (filename r)) # map ModelCall ms"
  have e0: "effects w0 = effects w @ [TaskState ''STARTED'' [(''status'', PStr ''Pipeline started''), (''video_path'', PStr video_path)]]"
    by (simp add: w0_def task_started_def)
  have e1: "effects w1 = effects (pipeline_setup True True local_path w0)
      @ progress_effects True True (update_data ''EXTRACT'' ''Starting frame extraction'' (PInt 15) [])
      @ progress_effects True True
              (update_data ''EXTRACT''
                 (''Frame extraction completed successfully. Extracted '' @ str_nat n @ '' frames'')
                 (PInt 30) [(''total_frames'', PInt (int n))])"
    using stage_extract_effects[OF assms(3)] by (simp add: w0_def)
  have e2: "effects w2 = effects w1
      @ progress_effects True True (update_data ''ANALYZE'' ''Starting video quality analysis'' (PInt 35) [])
      @ progress_effects True True
              (update_data ''ANALYZE''
                 (''Quality analysis completed. Analyzed '' @ str_nat ?n @ '' frames'')
                 (PInt 50) [(''analyzed_frames'', PInt (int ?n))])
      @ progress_effects True True
              (update_data ''ANALYZE''
                 (''Analysis summary: '' @ str_int (count_flag blurry (pre @ r # post)) @ '' blurry frames, ''
                    @ str_int (count_flag dark (pre @ r # post)) @ '' dark frames, ''
                    @ str_int (pipeline_good_count (pre @ r # post)) @ '' good frames'')
                 (PInt 50)
                 [(''blurry_count'', PInt (count_flag blurry (pre @ r # post))),
                  (''dark_count'', PInt (count_flag dark (pre @ r # post))),
                  (''good_count'', PInt (pipeline_good_count (pre @ r # post)))])"
    using stage_analyze_effects[OF assms(4)] by (simp del: length_append)
  have eres: "effects (snd res) = effects w @ T"
    unfolding T_def ms w3'_def update_progress_effects E(1) w2'_def e2 e1 pipeline_setup_effects e0
    by (simp del: length_append)
  have k: "k = length pre" using E(2) by (simp add: loop_post_def)
  have Ecalls: "enhance_calls E = map frame_paths (filter routed pre)"
    "copy_calls E = map frame_paths (filter (\<lambda>r. \<not> routed r) pre)" "reconstruct_calls E = []"
    using E(2) k by (simp_all add: loop_post_def)
  have Eup: "all_updates no_artifact E"
    by (rule loop_post_all_updates[OF E(2)]) simp
  define F where "F =
      [TaskState ''FAILURE'' [(''error'', PStr (''Frame processing failed: '' @ str_error e))],
       TaskState ''FAILURE''
                 [(''status'', PStr ''Pipeline failed''), (''error'', PStr (str_error e)),
                  (''video_path'', PStr video_path)],
       Publish [(''state'', PStr ''FAILURE''), (''status'', PStr ''Pipeline failed''),
                     (''error'', PStr (str_error e))]]"
  have ew': "effects w' = effects w @ T @ F"
    by (simp add: w'_def task_failure_def w4_def eres F_def)
  have ne: "new_effects w w' = T @ F" using ew' by (rule new_effects_append)
  have c1: "enhance_calls (new_effects w w') = map frame_paths (filter (\<lambda>r. blurry r \<or> dark r) (pre @ [r]))"
    unfolding ne using assms(6) Ecalls
    by (simp add: T_def F_def routed_eq frame_paths_def)
  have c2: "copy_calls (new_effects w w') = map frame_paths (filter (\<lambda>r. \<not> (blurry r \<or> dark r)) pre)"
    unfolding ne using Ecalls by (simp add: T_def F_def routed_eq)
  have c3: "reconstruct_calls (new_effects w w') = []"
    unfolding ne using Ecalls by (simp add: T_def F_def)
  have c4: "last (task_states (effects w')) =
        (''FAILURE'', [(''status'', PStr ''Pipeline failed''), (''error'', PStr (str_error e)),
                       (''video_path'', PStr video_path)])"
    "last (butlast (task_states (effects w'))) =
        (''FAILURE'', [(''error'', PStr (''Frame processing failed: '' @ str_error e))])"
    "dict_get (last (publications (effects w'))) ''state'' = Some (PStr ''FAILURE'')"
    unfolding ew' by (simp_all add: F_def butlast_append dict_get_def)
  have c5: "all_updates no_artifact (new_effects w w')"
    unfolding ne using Eup by (simp add: T_def F_def del: length_append)
  have v: "vfiles w' = (vfiles w)(local_path \<mapsto> content)"
  proof -
    have "vfiles w0 = (vfiles w)(local_path \<mapsto> content)" by (simp add: w0_def task_started_def)
    moreover have "vfiles w1 = vfiles w0" using stage_extract_vfiles[OF assms(3)] by (simp add: w0_def)
    moreover have "vfiles w2 = vfiles w1" using stage_analyze_world[OF assms(4)] by simp
    moreover have "vfiles w3 = vfiles w2'"
      using enhance_loop_vfiles[of ev True True ?n 0 pre 0 0 w2'] assms(5) by (simp add: w2'_def)
    moreover have "vfiles w' = vfiles w3"
      by (simp add: w'_def task_failure_def w4_def res_def w3'_def)
    ultimately show ?thesis by (simp add: w2'_def)
  qed
  from task c1 c2 c3 c4 c5 v show ?thesis by blast
qed


theorem enhancement_failure_aborts_job_witness:
  "\<exists>w'. run_pipeline_task failing_env ''videos/a.mp4'' empty_world
           = (Inl (ExternalError ''out of memory''), w')
    \<and> enhance_calls (new_effects empty_world w') =
        [(''ml_output/frames/frame_000000.jpg'', ''ml_output/enhanced/frame_000000.jpg'')]
    \<and> copy_calls (new_effects empty_world w') = []
    \<and> reconstruct_calls (new_effects empty_world w') = []
    \<and> last (task_states (effects w')) =
        (''FAILURE'', [(''status'', PStr ''Pipeline failed''), (''error'', PStr ''out of memory''),
                       (''video_path'', PStr ''videos/a.mp4'')])
    \<and> last (butlast (task_states (effects w'))) =
        (''FAILURE'', [(''error'', PStr ''Frame processing failed: out of memory'')])
    \<and> dict_get (last (publications (effects w'))) ''state'' = Some (PStr ''FAILURE'')
    \<and> all_updates no_artifact (new_effects empty_world w')
    \<and> vfiles w' = (vfiles empty_world)(''/tmp/in.mp4'' \<mapsto> Video [] 24 True)"
proof -
  let ?r = "verdict_of True False True False ''frame_000000.jpg''"
  let ?post = "[verdict_of False False False False ''frame_000001.jpg'']"
  have h1: "split_bucket_key ''videos/a.mp4'' = Inr (''videos'', ''a.mp4'')" by code_simp
  have h2: "download failing_env ''videos'' ''a.mp4'' = Inr (''/tmp/in.mp4'', Video [] 24 True)"
    by (simp add: failing_env_def demo_env_def)
  have h3: "stage_extract failing_env True True ''/tmp/in.mp4''
     (pipeline_setup True True ''/tmp/in.mp4''
        (task_started ''videos/a.mp4'' ''/tmp/in.mp4'' (Video [] 24 True) empty_world)) = (Inr 2, fail_w1)"
    using fail_stage_extract by (simp add: demo_w0_def)
  have h4: "stage_analyze failing_env True True fail_w1 = (Inr ([] @ ?r # ?post), fail_w2)"
    using fail_stage_analyze by (simp add: demo_results_def)
  have h5: "enhance_loop failing_env True True (length ([] @ ?r # ?post)) 0 [] 0 0
           (update_progress True True ''ENHANCE'' ''Starting frame enhancement'' (PInt 55) [] fail_w2)
         = (Inr (0, 0), update_progress True True ''ENHANCE'' ''Starting frame enhancement'' (PInt 55) [] fail_w2)"
    by simp
  have h6: "blurry ?r \<or> dark ?r" by (simp add: verdict_of_def)
  have h7: "fst (enhance_image failing_env frames_dir enhanced_dir (filename ?r)
           (update_progress True True ''ENHANCE''
              (enhancing_message (length ([] :: verdict list)) (length ([] @ ?r # ?post)) ?r)
              (PFloat (frame_progress (length ([] :: verdict list)) (length ([] @ ?r # ?post))))
              (frame_meta (length ([] :: verdict list)) (length ([] @ ?r # ?post)) 0 0)
              (update_progress True True ''ENHANCE'' ''Starting frame enhancement'' (PInt 55) [] fail_w2)))
         = Inl (ExternalError ''out of memory'')"
    by code_simp
  have p: "frame_paths ?r = (''ml_output/frames/frame_000000.jpg'', ''ml_output/enhanced/frame_000000.jpg'')"
    by (simp add: frame_paths_def verdict_of_def path_join_def frames_dir_def enhanced_dir_def)
  from enhancement_failure_aborts_job[OF h1 h2 h3 h4 h5 h6 h7] show ?thesis
    using h6 p by simp
qed







end
